theory Spec2Isabelle
  imports Complex_Main "HOL-Library.AList"
begin

section \<open>ssmconfig: hydrating a configuration struct from a parameter store\<close>

text \<open>
  The Go package has two functions, \<open>Process\<close> and \<open>processField\<close>, both written
  against the reflection API. The embedding keeps reflection explicit: a Go type is a
  value of \<open>gotype\<close> (what \<open>reflect.Type\<close> exposes), a Go value is a \<open>goval\<close>, and a
  \<open>reflect.Value\<close> that designates a field of the caller's struct is a path into that
  struct together with the field's type and its read-only flag.

  Functions of Go's standard library that the package calls but does not define
  (\<open>strconv.ParseInt\<close>, \<open>strconv.ParseUint\<close>, \<open>strconv.ParseBool\<close>,
  \<open>strconv.ParseFloat\<close>, \<open>time.ParseDuration\<close>, \<open>strings.TrimSpace\<close>) are parameters of
  the model, collected in the record \<open>stdlib\<close>; the theorems hold for every such library.
  Floating-point numbers are values of a type parameter \<open>'f\<close>. \<open>strings.Split\<close> with a
  one-byte separator is defined on bytes and is modelled directly.

  A call ends in one of three ways: it returns nil, it returns an error, or it panics.
  The only panic of the package that depends on the declared types is the one of
  \<open>reflect.Value.Set\<close> in the byte-slice case of \<open>processField\<close>; it is part of the model.
\<close>

subsection \<open>Types, as reflection shows them\<close>

datatype Kind =
    KInvalid | KBool
  | KInt | KInt8 | KInt16 | KInt32 | KInt64
  | KUint | KUint8 | KUint16 | KUint32 | KUint64 | KUintptr
  | KFloat32 | KFloat64 | KComplex64 | KComplex128
  | KArray | KChan | KFunc | KInterface | KMap | KPtr | KSlice | KString | KStruct
  | KUnsafePointer

text \<open>The kinds \<open>processField\<close> has no case for and \<open>Process\<close> does not descend into.\<close>

datatype okind = Uintptr | Complex64 | Complex128 | Chan | Func | Interface | UnsafePointer

fun okind_Kind :: "okind \<Rightarrow> Kind" where
  "okind_Kind Uintptr = KUintptr"
| "okind_Kind Complex64 = KComplex64"
| "okind_Kind Complex128 = KComplex128"
| "okind_Kind Chan = KChan"
| "okind_Kind Func = KFunc"
| "okind_Kind Interface = KInterface"
| "okind_Kind UnsafePointer = KUnsafePointer"

text \<open>The width of an integer type: \<open>int\<close>/\<open>uint\<close> (platform width) or a fixed width.\<close>

datatype width = WPlain | W8 | W16 | W32 | W64

datatype fwidth = F32 | F64

text \<open>
  \<open>reflect.StructField\<close>: the fields \<open>Process\<close> reads. A field is exported iff its
  \<open>PkgPath\<close> is empty. The struct tag is kept as its list of key/value pairs.
\<close>

type_synonym StructTag = "(string \<times> string) list"

datatype 't StructField =
  StructField (Name: string) (PkgPath: string) (Tag: StructTag) (Type: 't)

text \<open>
  An integer type carries its package path and name (\<open>Type.PkgPath\<close>, \<open>Type.Name\<close>):
  a predeclared type has the empty path and its own name, as \<open>int64\<close> or \<open>uint8\<close>
  (\<open>byte\<close> is the same type), a defined type such as \<open>time.Duration\<close> or a program's
  \<open>type MyByte uint8\<close> has the path of its package. \<open>processField\<close> reads the path and
  name of a signed type to recognise \<open>time.Duration\<close>, and whether it can assign a
  \<open>[]byte\<close> depends on the identity of an unsigned element type. For the other types
  the package's behaviour depends on the kind alone, and they carry no name. \<open>TOther\<close>
  stands for the kinds the package never inspects further (uintptr, complex, chan,
  func, interface, unsafe pointer).
\<close>

datatype gotype =
    TBool
  | TInt width string string
  | TUint width string string
  | TFloat fwidth
  | TString
  | TSlice gotype
  | TArray nat gotype
  | TMap gotype gotype
  | TStruct "gotype StructField list"
  | TPtr gotype
  | TOther okind

fun Kind_of :: "gotype \<Rightarrow> Kind" where
  "Kind_of TBool = KBool"
| "Kind_of (TInt WPlain _ _) = KInt"
| "Kind_of (TInt W8 _ _) = KInt8"
| "Kind_of (TInt W16 _ _) = KInt16"
| "Kind_of (TInt W32 _ _) = KInt32"
| "Kind_of (TInt W64 _ _) = KInt64"
| "Kind_of (TUint WPlain _ _) = KUint"
| "Kind_of (TUint W8 _ _) = KUint8"
| "Kind_of (TUint W16 _ _) = KUint16"
| "Kind_of (TUint W32 _ _) = KUint32"
| "Kind_of (TUint W64 _ _) = KUint64"
| "Kind_of (TFloat F32) = KFloat32"
| "Kind_of (TFloat F64) = KFloat64"
| "Kind_of TString = KString"
| "Kind_of (TSlice _) = KSlice"
| "Kind_of (TArray _ _) = KArray"
| "Kind_of (TMap _ _) = KMap"
| "Kind_of (TStruct _) = KStruct"
| "Kind_of (TPtr _) = KPtr"
| "Kind_of (TOther k) = okind_Kind k"

text \<open>\<open>reflect.Type.Bits\<close>; \<open>int\<close> and \<open>uint\<close> are 64 bits wide (a 64-bit platform).\<close>

fun Bits :: "width \<Rightarrow> nat" where
  "Bits WPlain = 64"
| "Bits W8 = 8"
| "Bits W16 = 16"
| "Bits W32 = 32"
| "Bits W64 = 64"

fun FBits :: "fwidth \<Rightarrow> nat" where
  "FBits F32 = 32"
| "FBits F64 = 64"

text \<open>\<open>reflect.StructTag.Get\<close>: the value of the first pair with that key, else \<open>""\<close>.\<close>

definition Tag_Get :: "StructTag \<Rightarrow> string \<Rightarrow> string" where
  "Tag_Get tg key = (case map_of tg key of None \<Rightarrow> [] | Some v \<Rightarrow> v)"

subsection \<open>Values\<close>

text \<open>
  \<open>VNil\<close> is the nil slice, map or pointer; \<open>VSlice []\<close> and \<open>VMap []\<close> are the empty,
  non-nil ones. A map is an association list with distinct keys; the order of its
  entries is not observable in Go. \<open>VOther\<close> is a value of a \<open>TOther\<close> type.
\<close>

datatype 'f goval =
    VBool bool
  | VInt int
  | VUint nat
  | VFloat 'f
  | VString string
  | VSlice "'f goval list"
  | VArray "'f goval list"
  | VMap "('f goval \<times> 'f goval) list"
  | VStruct "'f goval list"
  | VPtr "'f goval"
  | VNil
  | VOther

text \<open>The zero value of a type: what \<open>reflect.MakeSlice\<close> and \<open>reflect.New\<close> allocate.\<close>

lemma size_Type_field [termination_simp]:
  "f \<in> set fs \<Longrightarrow> size (Type f) < Suc (size_list (size_StructField size) fs)"
  by (induction fs) (auto simp: less_Suc_eq; (cases f; simp))+

fun Zero :: "gotype \<Rightarrow> 'f::zero goval" where
  "Zero TBool = VBool False"
| "Zero (TInt _ _ _) = VInt 0"
| "Zero (TUint _ _ _) = VUint 0"
| "Zero (TFloat _) = VFloat 0"
| "Zero TString = VString []"
| "Zero (TSlice _) = VNil"
| "Zero (TArray n t) = VArray (replicate n (Zero t))"
| "Zero (TMap _ _) = VNil"
| "Zero (TStruct fs) = VStruct (map (\<lambda>f. Zero (Type f)) fs)"
| "Zero (TPtr _) = VNil"
| "Zero (TOther _) = VOther"

subsection \<open>Errors and the standard library\<close>

text \<open>
  Go's \<open>error\<close> values: \<open>errors.New\<close> (and \<open>time.ParseDuration\<close>) build an
  \<open>ErrorString\<close>; \<open>fmt.Errorf\<close> is kept as its format and arguments; \<open>strconv\<close> returns
  a \<open>NumError\<close> (function, input, cause); \<open>ExternalError\<close> is any other error a
  collaborator returns, such as the store's.
\<close>

datatype error =
    ErrorString string
  | Errorf string "string list"
  | NumError string string string
  | ExternalError string string

text \<open>
  How a call fails: it returns an error, or it panics with a message. A call that
  does not fail returns nil, which is \<open>None\<close> of type \<open>failure option\<close>.
\<close>

datatype failure = Err error | Panic string

record 'f stdlib =
  ParseInt :: "string \<Rightarrow> nat \<Rightarrow> nat \<Rightarrow> error + int"
  ParseUint :: "string \<Rightarrow> nat \<Rightarrow> nat \<Rightarrow> error + nat"
  ParseBool :: "string \<Rightarrow> error + bool"
  ParseFloat :: "string \<Rightarrow> nat \<Rightarrow> error + 'f"
  ParseDuration :: "string \<Rightarrow> error + int"
  TrimSpace :: "string \<Rightarrow> string"
  float32 :: "'f \<Rightarrow> 'f"

text \<open>
  \<open>strings.Split(s, sep)\<close> for a one-byte separator: the substrings between the
  separators, \<open>[s]\<close> when there is none, so never the empty list.
\<close>

fun Split :: "string \<Rightarrow> char \<Rightarrow> string list" where
  "Split [] sep = [[]]"
| "Split (c # s) sep =
     (if c = sep then [] # Split s sep
      else (case Split s sep of [] \<Rightarrow> [[c]] | x # xs \<Rightarrow> (c # x) # xs))"

text \<open>
  \<open>reflect.Value.SetInt\<close>, \<open>SetUint\<close>, \<open>SetFloat\<close> store the 64-bit argument converted
  to the field's width: integers wrap around, a \<open>float32\<close> field rounds.
\<close>

definition SetInt :: "width \<Rightarrow> int \<Rightarrow> 'f goval" where
  "SetInt w x = VInt ((x + 2 ^ (Bits w - 1)) mod 2 ^ Bits w - 2 ^ (Bits w - 1))"

definition SetUint :: "width \<Rightarrow> nat \<Rightarrow> 'f goval" where
  "SetUint w x = VUint (x mod 2 ^ Bits w)"

definition SetFloat :: "'f stdlib \<Rightarrow> fwidth \<Rightarrow> 'f \<Rightarrow> 'f goval" where
  "SetFloat L w x = VFloat (case w of F32 \<Rightarrow> float32 L x | F64 \<Rightarrow> x)"

text \<open>\<open>[]byte(value)\<close> as a slice value.\<close>

definition bytes :: "string \<Rightarrow> 'f goval" where
  "bytes value = VSlice (map (\<lambda>c. VUint (of_char c)) value)"

text \<open>
  \<open>field.Set(sl)\<close> for a value \<open>sl\<close> of type \<open>[]uint8\<close> and a field of a slice type
  with the element type \<open>el\<close>. \<open>Set\<close> panics unless \<open>[]uint8\<close> is assignable to the
  field's type: the slice type itself may be a defined type, but its element type has
  to be the type \<open>uint8\<close>, not a defined type of that kind. The panic leaves the field
  as it is; its message is shortened here (Go's names the field's type).
\<close>

definition Set_bytes :: "gotype \<Rightarrow> 'f goval \<Rightarrow> 'f goval \<Rightarrow> 'f goval \<times> failure option" where
  "Set_bytes el sl field =
     (if el = TUint W8 [] ''uint8'' then (sl, None)
      else (field, Some (Panic ''reflect.Set: value of type []uint8 is not assignable'')))"

subsection \<open>processField\<close>

text \<open>
  \<open>processField value field\<close> decodes \<open>value\<close> into the field. The model takes the
  field's type and its current value and gives the field's value when the call ends,
  with the way it ends: \<open>None\<close> when it returns nil, \<open>Some (Err e)\<close> when it returns
  the error \<open>e\<close>, \<open>Some (Panic m)\<close> when it panics. \<open>processElems\<close> is the loop over
  the elements of a fresh slice, \<open>processPairs\<close> the loop over the pairs of a fresh
  map; both end at the first element that fails, with its failure.
\<close>

function processField :: "'f::zero stdlib \<Rightarrow> string \<Rightarrow> gotype \<Rightarrow> 'f goval \<Rightarrow> 'f goval \<times> failure option"
and processElems :: "'f stdlib \<Rightarrow> gotype \<Rightarrow> string list \<Rightarrow> failure + 'f goval list"
and processPairs :: "'f stdlib \<Rightarrow> gotype \<Rightarrow> gotype \<Rightarrow> string list \<Rightarrow> ('f goval \<times> 'f goval) list
                      \<Rightarrow> failure + ('f goval \<times> 'f goval) list"
where
  "processField L value TString field = (VString value, None)"
| "processField L value (TInt w pkg name) field =
     (case (if Kind_of (TInt w pkg name) = KInt64 \<and> pkg = ''time'' \<and> name = ''Duration''
            then ParseDuration L value
            else ParseInt L value 0 (Bits w)) of
        Inl err \<Rightarrow> (field, Some (Err err))
      | Inr val \<Rightarrow> (SetInt w val, None))"
| "processField L value (TUint w pkg name) field =
     (case ParseUint L value 0 (Bits w) of
        Inl err \<Rightarrow> (field, Some (Err err))
      | Inr val \<Rightarrow> (SetUint w val, None))"
| "processField L value TBool field =
     (case ParseBool L value of
        Inl err \<Rightarrow> (field, Some (Err err))
      | Inr val \<Rightarrow> (VBool val, None))"
| "processField L value (TFloat w) field =
     (case ParseFloat L value (FBits w) of
        Inl err \<Rightarrow> (field, Some (Err err))
      | Inr val \<Rightarrow> (SetFloat L w val, None))"
| "processField L value (TSlice el) field =
     (if Kind_of el = KUint8 then Set_bytes el (bytes value) field
      else if length (TrimSpace L value) \<noteq> 0 then
        (case processElems L el (Split value CHR '','') of
           Inl fl \<Rightarrow> (field, Some fl)
         | Inr sl \<Rightarrow> (VSlice sl, None))
      else (VSlice [], None))"
| "processField L value (TMap kt vt) field =
     (if length (TrimSpace L value) \<noteq> 0 then
        (case processPairs L kt vt (Split value CHR '','') [] of
           Inl fl \<Rightarrow> (field, Some fl)
         | Inr mp \<Rightarrow> (VMap mp, None))
      else (VMap [], None))"
| "processField L value (TArray n el) field = (field, None)"
| "processField L value (TStruct fs) field = (field, None)"
| "processField L value (TPtr t) field = (field, None)"
| "processField L value (TOther k) field = (field, None)"
| "processElems L el [] = Inr []"
| "processElems L el (val # vals) =
     (case processField L val el (Zero el) of
        (_, Some fl) \<Rightarrow> Inl fl
      | (x, None) \<Rightarrow>
          (case processElems L el vals of
             Inl fl \<Rightarrow> Inl fl
           | Inr xs \<Rightarrow> Inr (x # xs)))"
| "processPairs L kt vt [] mp = Inr mp"
| "processPairs L kt vt (pair # pairs) mp =
     (let kvpair = Split pair CHR '':'' in
      if length kvpair \<noteq> 2 then Inl (Err (Errorf ''invalid map item: %q'' [pair]))
      else
        (case processField L (kvpair ! 0) kt (Zero kt) of
           (_, Some fl) \<Rightarrow> Inl fl
         | (k, None) \<Rightarrow>
             (case processField L (kvpair ! 1) vt (Zero vt) of
                (_, Some fl) \<Rightarrow> Inl fl
              | (v, None) \<Rightarrow> processPairs L kt vt pairs (AList.update k v mp))))"
  by pat_completeness auto
termination
  by (relation "measures
        [case_sum (\<lambda>(L, value, t, field). size t)
           (case_sum (\<lambda>(L, el, vals). size el) (\<lambda>(L, kt, vt, pairs, mp). size kt + size vt)),
         case_sum (\<lambda>(L, value, t, field). 0)
           (case_sum (\<lambda>(L, el, vals). Suc (length vals))
              (\<lambda>(L, kt, vt, pairs, mp). Suc (length pairs)))]")
     auto

text \<open>
  The body of the loop over the pairs of a map, on its own: the failure that ends
  the loop at this pair, or the key and the value that the loop stores. \<open>insertPair\<close>
  is the store \<open>mp.SetMapIndex(k, v)\<close> of a pair that decoded.
\<close>

definition decodePair :: "'f::zero stdlib \<Rightarrow> gotype \<Rightarrow> gotype \<Rightarrow> string \<Rightarrow> failure + ('f goval \<times> 'f goval)" where
  "decodePair L kt vt pair =
     (let kvpair = Split pair CHR '':'' in
      if length kvpair \<noteq> 2 then Inl (Err (Errorf ''invalid map item: %q'' [pair]))
      else
        (case processField L (kvpair ! 0) kt (Zero kt) of
           (_, Some fl) \<Rightarrow> Inl fl
         | (k, None) \<Rightarrow>
             (case processField L (kvpair ! 1) vt (Zero vt) of
                (_, Some fl) \<Rightarrow> Inl fl
              | (v, None) \<Rightarrow> Inr (k, v))))"

definition insertPair :: "failure + ('f goval \<times> 'f goval) \<Rightarrow> ('f goval \<times> 'f goval) list
                            \<Rightarrow> ('f goval \<times> 'f goval) list" where
  "insertPair r mp = (case r of Inl fl \<Rightarrow> mp | Inr (k, v) \<Rightarrow> AList.update k v mp)"

subsection \<open>Process: walking the struct\<close>

text \<open>
  A \<open>reflect.Value\<close> that designates a field of the caller's struct: where the field
  lies (the indices from the root struct down), its type, and the read-only flag that
  \<open>Value.Field\<close> sets for an unexported field. Every such value is addressable, so
  \<open>CanSet\<close> is the absence of the flag.
\<close>

record rvalue =
  path :: "nat list"
  vtype :: gotype
  flagRO :: bool

definition CanSet :: "rvalue \<Rightarrow> bool" where
  "CanSet v = (\<not> flagRO v)"

text \<open>
  \<open>queueObject\<close>, without the members \<open>spec\<close> and \<open>specType\<close>, which \<open>Process\<close>
  writes and never reads.
\<close>

record queueObject =
  q_field :: rvalue
  q_fieldType :: "gotype StructField"
  q_prefix :: string

text \<open>The fields of a struct type (\<open>NumField\<close>, \<open>Field(i)\<close>); other types have none.\<close>

fun Fields :: "gotype \<Rightarrow> gotype StructField list" where
  "Fields (TStruct fs) = fs"
| "Fields _ = []"

text \<open>\<open>s.Field(i)\<close> for the struct value at path \<open>p\<close> whose type has the fields \<open>fs\<close>.\<close>

definition Value_Field :: "nat list \<Rightarrow> gotype StructField list \<Rightarrow> nat \<Rightarrow> rvalue" where
  "Value_Field p fs i = \<lparr>path = p @ [i], vtype = Type (fs ! i), flagRO = (PkgPath (fs ! i) \<noteq> [])\<rparr>"

text \<open>
  The loop \<open>for i := 0; i < s.NumField(); i++\<close> that appends one queue object per
  field; it occurs twice in \<open>Process\<close>, for the root struct and for a sub-struct.
\<close>

definition enqueue :: "nat list \<Rightarrow> gotype StructField list \<Rightarrow> string \<Rightarrow> queueObject list" where
  "enqueue p fs pre =
     map (\<lambda>i. \<lparr>q_field = Value_Field p fs i, q_fieldType = fs ! i, q_prefix = pre\<rparr>) [0..<length fs]"

definition queue_size :: "queueObject list \<Rightarrow> nat" where
  "queue_size queue = sum_list (map (\<lambda>q. Suc (size (vtype (q_field q)))) queue)"

lemma enqueue_size: "queue_size (enqueue p fs pre) \<le> size (TStruct fs)"
proof -
  have "map (\<lambda>i. Suc (size (Type (fs ! i)))) [0..<length fs] = map (\<lambda>f. Suc (size (Type f))) fs"
    by (rule nth_equalityI) auto
  moreover have "sum_list (map (\<lambda>f. Suc (size (Type f))) fs) \<le> size_list (size_StructField size) fs"
    by (induction fs) (auto split: StructField.splits simp: le_Suc_eq, (case_tac a; simp)+)
  ultimately show ?thesis
    by (simp add: queue_size_def enqueue_def Value_Field_def comp_def)
qed

lemma queue_size_append: "queue_size (xs @ ys) = queue_size xs + queue_size ys"
  by (simp add: queue_size_def)

lemma queue_size_Cons: "queue_size (q # qs) = Suc (size (vtype (q_field q))) + queue_size qs"
  by (simp add: queue_size_def)

lemma okind_not_Struct: "okind_Kind k \<noteq> KStruct"
  by (cases k) simp_all

lemma Kind_of_Struct: "Kind_of t = KStruct \<longleftrightarrow> (\<exists>fs. t = TStruct fs)"
  by (cases t rule: Kind_of.cases) (simp_all add: okind_not_Struct)

lemma Fields_size: "Kind_of t = KStruct \<Longrightarrow> queue_size (enqueue p (Fields t) pre) \<le> size t"
  using enqueue_size by (auto simp: Kind_of_Struct)

text \<open>
  The queue loop of \<open>Process\<close>. \<open>infos\<close> is the Go map from parameter name to field,
  kept as an association list with distinct keys: an assignment replaces the entry of
  an existing key and appends a new one.
\<close>

function walk :: "queueObject list \<Rightarrow> (string \<times> rvalue) list \<Rightarrow> (string \<times> rvalue) list" where
  "walk [] infos = infos"
| "walk (q # queue) infos =
     (if \<not> CanSet (q_field q) then walk queue infos
      else
        (let ssmparam = Tag_Get (Tag (q_fieldType q)) ''ssmparam'' in
         if Kind_of (vtype (q_field q)) = KStruct then
           walk (queue @ enqueue (path (q_field q)) (Fields (vtype (q_field q))) (q_prefix q @ ssmparam))
             infos
         else if ssmparam = [] then walk queue infos
         else walk queue (AList.update (q_prefix q @ ssmparam) (q_field q) infos)))"
  by pat_completeness auto
termination
proof (relation "measure (\<lambda>(queue, infos). queue_size queue)")
  fix q :: queueObject and queue :: "queueObject list" and infos :: "(string \<times> rvalue) list"
    and x :: string
  assume "Kind_of (vtype (q_field q)) = KStruct"
  then have "queue_size (enqueue (path (q_field q)) (Fields (vtype (q_field q))) (q_prefix q @ x))
               \<le> size (vtype (q_field q))"
    by (rule Fields_size)
  then show "((queue @ enqueue (path (q_field q)) (Fields (vtype (q_field q))) (q_prefix q @ x), infos),
              q # queue, infos) \<in> measure (\<lambda>(queue, infos). queue_size queue)"
    by (simp add: queue_size_append queue_size_Cons)
qed (simp_all add: queue_size_Cons)

subsection \<open>Process: the store and the fill loop\<close>

text \<open>
  \<open>ssm.GetParametersInput\<close> and \<open>ssm.Parameter\<close>, with the members \<open>Process\<close> uses.
  The SDK's pointers to strings and booleans are options; \<open>aws.StringValue\<close> reads a
  nil pointer as the empty string.
\<close>

record GetParametersInput =
  Names :: "string list"
  WithDecryption :: "bool option"

record Parameter =
  P_Name :: "string option"
  P_Value :: "string option"

definition StringValue :: "string option \<Rightarrow> string" where
  "StringValue v = (case v of None \<Rightarrow> [] | Some x \<Rightarrow> x)"

text \<open>
  The store, \<open>ssmiface.SSMAPI.GetParameters\<close>: an error, or an output whose
  \<open>Parameters\<close> are given here. This is the client's contract: with a nil error the
  output and its entries are not nil, and \<open>Process\<close> does not look at the output when
  the error is not nil.
\<close>

type_synonym SSMAPI = "GetParametersInput \<Rightarrow> error + Parameter list"

text \<open>
  Reading and writing the field that an \<open>rvalue\<close> designates, inside the root struct
  value. A path that walk records lies inside every value of the struct's type;
  elsewhere a read yields \<open>VOther\<close> and a write changes nothing.
\<close>

fun get_at :: "nat list \<Rightarrow> 'f goval \<Rightarrow> 'f goval" where
  "get_at [] v = v"
| "get_at (i # p) (VStruct vs) = (if i < length vs then get_at p (vs ! i) else VOther)"
| "get_at (i # p) v = VOther"

fun set_at :: "nat list \<Rightarrow> 'f goval \<Rightarrow> 'f goval \<Rightarrow> 'f goval" where
  "set_at [] x v = x"
| "set_at (i # p) x (VStruct vs) =
     (if i < length vs then VStruct (vs[i := set_at p x (vs ! i)]) else VStruct vs)"
| "set_at (i # p) x v = v"

text \<open>
  The loop over \<open>out.Parameters\<close>: a name that is not a key of \<open>infos\<close> is skipped,
  the first failure of \<open>processField\<close> ends the loop. The result is the root struct
  as the loop leaves it, with the way the loop ends.
\<close>

fun fill :: "'f::zero stdlib \<Rightarrow> (string \<times> rvalue) list \<Rightarrow> Parameter list \<Rightarrow> 'f goval
               \<Rightarrow> 'f goval \<times> failure option" where
  "fill L infos [] s = (s, None)"
| "fill L infos (param # params) s =
     (case map_of infos (StringValue (P_Name param)) of
        None \<Rightarrow> fill L infos params s
      | Some f \<Rightarrow>
          (case processField L (StringValue (P_Value param)) (vtype f) (get_at (path f) s) of
             (v, Some fl) \<Rightarrow> (set_at (path f) v s, Some fl)
           | (v, None) \<Rightarrow> fill L infos params (set_at (path f) v s)))"

subsection \<open>Process\<close>

text \<open>
  The argument \<open>spec interface{}\<close>: the nil interface, or a dynamic type with a value.
  A value of a pointer type is \<open>VNil\<close> or \<open>VPtr s\<close> with the pointee \<open>s\<close>.
\<close>

datatype 'f iface = NilIface | Iface gotype "'f goval"

text \<open>
  What a call of \<open>Process\<close> leaves behind: the way it ended (\<open>None\<close>: it returned
  nil; \<open>Some (Err e)\<close>: it returned the error \<open>e\<close>; \<open>Some (Panic m)\<close>: it panicked),
  the argument with the pointee as the call left it, and the requests it sent to the
  store, in order.
\<close>

record 'f outcome =
  ended :: "failure option"
  spec_after :: "'f iface"
  requests :: "GetParametersInput list"

text \<open>
  The names of the request are the keys of the Go map \<open>infos\<close> in the order of a
  \<open>range\<close> loop, which Go leaves unspecified; the model lists them in the order of
  their first insertion. No theorem below depends on the order.
\<close>

definition Process :: "'f::zero stdlib \<Rightarrow> SSMAPI \<Rightarrow> string \<Rightarrow> 'f iface \<Rightarrow> 'f outcome" where
  "Process L ssmsvc pre spec =
     (case spec of
        NilIface \<Rightarrow>
          \<lparr>ended = Some (Err (ErrorString ''spec must be non-nil pointer'')),
           spec_after = spec, requests = []\<rparr>
      | Iface t v \<Rightarrow>
          (case t of
             TPtr st \<Rightarrow>
               (case v of
                  VPtr s \<Rightarrow>
                    if Kind_of st \<noteq> KStruct then
                      \<lparr>ended = Some (Err (ErrorString ''spec must be a struct type'')),
                       spec_after = spec, requests = []\<rparr>
                    else
                      (let queue = enqueue [] (Fields st) pre;
                           infos = walk queue [];
                           names = map fst infos;
                           input = \<lparr>Names = names, WithDecryption = Some True\<rparr>
                       in case ssmsvc input of
                            Inl e \<Rightarrow> \<lparr>ended = Some (Err e), spec_after = spec, requests = [input]\<rparr>
                          | Inr params \<Rightarrow>
                              (case fill L infos params s of
                                 (s', fl) \<Rightarrow>
                                   \<lparr>ended = fl, spec_after = Iface t (VPtr s'),
                                    requests = [input]\<rparr>))
                | _ \<Rightarrow>
                    \<lparr>ended = Some (Err (ErrorString ''spec must be a struct type'')),
                     spec_after = spec, requests = []\<rparr>)
           | _ \<Rightarrow>
               \<lparr>ended = Some (Err (ErrorString ''spec must be non-nil pointer'')),
                spec_after = spec, requests = []\<rparr>))"

subsection \<open>The walk, as the specification describes it\<close>

text \<open>
  Section 4.1 of the specification describes the name-to-field mapping field by
  field, without the queue. \<open>bound_leaf pre base fs p\<close> follows its words along one
  path \<open>p\<close> of field indices into a struct with the fields \<open>fs\<close>, located at \<open>base\<close>
  and reached with the prefix \<open>pre\<close>: a field that is not writable contributes nothing
  (with everything below it); a sub-struct passes on the prefix extended by its own
  tag value, which is empty when it has no tag; a writable field that is not a struct
  and has a tag is bound to the name prefix + tag. The result is the entry of the
  mapping for the leaf at \<open>p\<close>, when that leaf is bound.
\<close>

fun bound_leaf :: "string \<Rightarrow> nat list \<Rightarrow> gotype StructField list \<Rightarrow> nat list \<Rightarrow> (string \<times> rvalue) option" where
  "bound_leaf pre base fs [] = None"
| "bound_leaf pre base fs (i # p) =
     (if i \<ge> length fs then None
      else if PkgPath (fs ! i) \<noteq> [] then None
      else if Kind_of (Type (fs ! i)) = KStruct then
        bound_leaf (pre @ Tag_Get (Tag (fs ! i)) ''ssmparam'') (base @ [i]) (Fields (Type (fs ! i))) p
      else if p = [] \<and> Tag_Get (Tag (fs ! i)) ''ssmparam'' \<noteq> [] then
        Some (pre @ Tag_Get (Tag (fs ! i)) ''ssmparam'', Value_Field base fs i)
      else None)"

text \<open>The tag values of the fields on a path, from the outermost field to the leaf.\<close>

fun tags_on_path :: "gotype StructField list \<Rightarrow> nat list \<Rightarrow> string list" where
  "tags_on_path fs [] = []"
| "tags_on_path fs (i # p) =
     (if i \<ge> length fs then []
      else Tag_Get (Tag (fs ! i)) ''ssmparam'' # tags_on_path (Fields (Type (fs ! i))) p)"

text \<open>
  The same reading for one queue object and a path below its field, and the entries
  that the objects of a queue stand for.
\<close>

definition q_leaf :: "queueObject \<Rightarrow> nat list \<Rightarrow> (string \<times> rvalue) option" where
  "q_leaf q p =
     (let ssmparam = Tag_Get (Tag (q_fieldType q)) ''ssmparam'' in
      if \<not> CanSet (q_field q) then None
      else if Kind_of (vtype (q_field q)) = KStruct then
        bound_leaf (q_prefix q @ ssmparam) (path (q_field q)) (Fields (vtype (q_field q))) p
      else if p = [] \<and> ssmparam \<noteq> [] then Some (q_prefix q @ ssmparam, q_field q)
      else None)"

definition queue_leaves :: "queueObject list \<Rightarrow> (string \<times> rvalue) set" where
  "queue_leaves queue = {e. \<exists>q\<in>set queue. \<exists>p. q_leaf q p = Some e}"

subsection \<open>The structs of the package's tests\<close>

text \<open>The types \<open>NestedStringConfig\<close>, \<open>SmallConfig\<close>, \<open>NoTagConfig\<close> and \<open>Config\<close> of the test file.\<close>

definition NestedStringConfig :: gotype where
  "NestedStringConfig = TStruct [StructField ''NestedKey'' [] [(''ssmparam'', ''/nested/key'')] TString]"

definition SmallConfig :: gotype where
  "SmallConfig = TStruct [StructField ''Nested'' [] [(''ssmparam'', ''/prefixnested'')] NestedStringConfig]"

definition NoTagConfig :: gotype where
  "NoTagConfig = TStruct [StructField ''TestKey'' [] [] TString]"

definition Config :: gotype where
  "Config = TStruct
     [StructField ''TestKey'' [] [(''ssmparam'', ''/test/key'')] TString,
      StructField ''TestNumber'' [] [(''ssmparam'', ''/test/number'')] (TInt WPlain [] ''int''),
      StructField ''TestUInt'' [] [(''ssmparam'', ''/test/uint'')] (TUint WPlain [] ''uint''),
      StructField ''TestBool'' [] [(''ssmparam'', ''/test/bool'')] TBool,
      StructField ''TestFloat'' [] [(''ssmparam'', ''/test/float'')] (TFloat F64),
      StructField ''TestFloatSlice'' [] [(''ssmparam'', ''/test/floatslice'')] (TSlice (TFloat F64)),
      StructField ''TestDuration'' [] [(''ssmparam'', ''/test/duration'')] (TInt W64 ''time'' ''Duration''),
      StructField ''TestMap'' [] [(''ssmparam'', ''/test/map'')] (TMap TString TString),
      StructField ''Nested'' [] [] NestedStringConfig,
      StructField ''Inline'' [] []
        (TStruct [StructField ''InlineKey'' [] [(''ssmparam'', ''/inline/key'')] TString])]"

text \<open>The parameters that the mock store returns in the test "reads values from ssm".\<close>

definition test_parameters :: "Parameter list" where
  "test_parameters =
     [\<lparr>P_Name = Some ''/test/key'', P_Value = Some ''testkey''\<rparr>,
      \<lparr>P_Name = Some ''/test/number'', P_Value = Some ''-314''\<rparr>,
      \<lparr>P_Name = Some ''/test/uint'', P_Value = Some ''314''\<rparr>,
      \<lparr>P_Name = Some ''/test/bool'', P_Value = Some ''true''\<rparr>,
      \<lparr>P_Name = Some ''/test/float'', P_Value = Some ''3.14159''\<rparr>,
      \<lparr>P_Name = Some ''/test/floatslice'', P_Value = Some ''3.14159,2.618034,2.718''\<rparr>,
      \<lparr>P_Name = Some ''/test/duration'', P_Value = Some ''5m''\<rparr>,
      \<lparr>P_Name = Some ''/test/map'', P_Value = Some ''first_name:Test,last_name:McTest,email:Test@test.com''\<rparr>,
      \<lparr>P_Name = Some ''/nested/key'', P_Value = Some ''nestedkey''\<rparr>,
      \<lparr>P_Name = Some ''/inline/key'', P_Value = Some ''inlinekey''\<rparr>]"

subsection \<open>A library instance for concrete inputs\<close>

text \<open>
  \<open>std\<close> instantiates the library parameter so that the model can be evaluated on
  concrete inputs. It follows the documented behaviour of Go's \<open>strconv\<close>, \<open>strings\<close>
  and \<open>time\<close> on a fragment: integer literals with an optional sign and base prefix
  (no \<open>_\<close> digit separators), the boolean literals, ASCII white space, durations made
  of whole numbers with the units \<open>ns us ms s m h\<close>, and plain decimal floats read as
  exact reals. Outside the fragment it reports a syntax error where Go may accept the
  input. The examples refer to \<open>std\<close>, and so do the round trips of the printed
  booleans and integers; every other statement quantifies over the library.
\<close>

definition isSpace :: "char \<Rightarrow> bool" where
  "isSpace c = (c \<in> set [CHR 0x09, CHR 0x0A, CHR 0x0B, CHR 0x0C, CHR 0x0D, CHR '' ''])"

definition std_TrimSpace :: "string \<Rightarrow> string" where
  "std_TrimSpace s = rev (dropWhile isSpace (rev (dropWhile isSpace s)))"

definition syntaxError :: "string \<Rightarrow> string \<Rightarrow> error" where
  "syntaxError fn str = NumError fn str ''invalid syntax''"

definition rangeError :: "string \<Rightarrow> string \<Rightarrow> error" where
  "rangeError fn str = NumError fn str ''value out of range''"

definition std_ParseBool :: "string \<Rightarrow> error + bool" where
  "std_ParseBool str =
     (if str \<in> set [''1'', ''t'', ''T'', ''TRUE'', ''true'', ''True''] then Inr True
      else if str \<in> set [''0'', ''f'', ''F'', ''FALSE'', ''false'', ''False''] then Inr False
      else Inl (syntaxError ''ParseBool'' str))"

definition digit :: "char \<Rightarrow> nat option" where
  "digit c =
     (let n = (of_char c :: nat) in
      if 48 \<le> n \<and> n \<le> 57 then Some (n - 48)
      else if 97 \<le> n \<and> n \<le> 122 then Some (n - 87)
      else if 65 \<le> n \<and> n \<le> 90 then Some (n - 55)
      else None)"

text \<open>The digit loop of \<open>ParseUint\<close>: the first bad digit or overflow ends it.\<close>

fun digits :: "string \<Rightarrow> string \<Rightarrow> nat \<Rightarrow> nat \<Rightarrow> string \<Rightarrow> nat \<Rightarrow> error + nat" where
  "digits fn s0 b maxVal [] n = Inr n"
| "digits fn s0 b maxVal (c # cs) n =
     (case digit c of
        None \<Rightarrow> Inl (syntaxError fn s0)
      | Some d \<Rightarrow>
          if d \<ge> b then Inl (syntaxError fn s0)
          else if n * b + d > maxVal then Inl (rangeError fn s0)
          else digits fn s0 b maxVal cs (n * b + d))"

definition lower :: "char \<Rightarrow> char" where
  "lower c = (if 65 \<le> (of_char c :: nat) \<and> (of_char c :: nat) \<le> 90
              then char_of ((of_char c :: nat) + 32) else c)"

definition parse_uint :: "string \<Rightarrow> string \<Rightarrow> string \<Rightarrow> nat \<Rightarrow> nat \<Rightarrow> error + nat" where
  "parse_uint fn s0 s base bitSize =
     (if s = [] then Inl (syntaxError fn s0)
      else if base = 0 then
        (if hd s = CHR ''0'' then
           (if length s \<ge> 3 \<and> lower (s ! 1) = CHR ''b'' then digits fn s0 2 (2 ^ bitSize - 1) (drop 2 s) 0
            else if length s \<ge> 3 \<and> lower (s ! 1) = CHR ''o'' then digits fn s0 8 (2 ^ bitSize - 1) (drop 2 s) 0
            else if length s \<ge> 3 \<and> lower (s ! 1) = CHR ''x'' then digits fn s0 16 (2 ^ bitSize - 1) (drop 2 s) 0
            else digits fn s0 8 (2 ^ bitSize - 1) (tl s) 0)
         else digits fn s0 10 (2 ^ bitSize - 1) s 0)
      else if 2 \<le> base \<and> base \<le> 36 then digits fn s0 base (2 ^ bitSize - 1) s 0
      else Inl (NumError fn s0 ''invalid base''))"

definition std_ParseUint :: "string \<Rightarrow> nat \<Rightarrow> nat \<Rightarrow> error + nat" where
  "std_ParseUint s base bitSize = parse_uint ''ParseUint'' s s base bitSize"

definition std_ParseInt :: "string \<Rightarrow> nat \<Rightarrow> nat \<Rightarrow> error + int" where
  "std_ParseInt s base bitSize =
     (if s = [] then Inl (syntaxError ''ParseInt'' s)
      else
        (let neg = (hd s = CHR ''-'');
             rest = (if hd s = CHR ''+'' \<or> hd s = CHR ''-'' then tl s else s)
         in case parse_uint ''ParseInt'' s rest base bitSize of
              Inl e \<Rightarrow> Inl e
            | Inr un \<Rightarrow>
                if \<not> neg \<and> un \<ge> 2 ^ (bitSize - 1) then Inl (rangeError ''ParseInt'' s)
                else if neg \<and> un > 2 ^ (bitSize - 1) then Inl (rangeError ''ParseInt'' s)
                else Inr (if neg then - int un else int un)))"

definition unit_ns :: "string \<Rightarrow> nat option" where
  "unit_ns u =
     map_of [(''ns'', 1), (''us'', 1000), (''ms'', 1000000), (''s'', 1000000000),
             (''m'', 60000000000), (''h'', 3600000000000)] u"

text \<open>
  The terms of a duration literal, read byte by byte: \<open>tot\<close> is the sum of the closed
  terms, \<open>num\<close> the number of the open term (\<open>None\<close> before its first digit) and \<open>u\<close>
  its unit so far.
\<close>

fun duration_terms :: "string \<Rightarrow> nat \<Rightarrow> nat option \<Rightarrow> string \<Rightarrow> nat option" where
  "duration_terms [] tot num u =
     (case (num, unit_ns u) of (Some n, Some k) \<Rightarrow> Some (tot + n * k) | _ \<Rightarrow> None)"
| "duration_terms (c # cs) tot num u =
     (if 48 \<le> (of_char c :: nat) \<and> (of_char c :: nat) \<le> 57 then
        (let d = (of_char c :: nat) - 48 in
         if u = [] then duration_terms cs tot (Some (case num of None \<Rightarrow> d | Some n \<Rightarrow> n * 10 + d)) []
         else (case (num, unit_ns u) of
                 (Some n, Some k) \<Rightarrow> duration_terms cs (tot + n * k) (Some d) []
               | _ \<Rightarrow> None))
      else if c = CHR ''.'' \<or> num = None then None
      else duration_terms cs tot num (u @ [c]))"

definition std_ParseDuration :: "string \<Rightarrow> error + int" where
  "std_ParseDuration s =
     (let neg = (s \<noteq> [] \<and> hd s = CHR ''-'');
          rest = (if s \<noteq> [] \<and> (hd s = CHR ''+'' \<or> hd s = CHR ''-'') then tl s else s)
      in if rest = ''0'' then Inr 0
         else case duration_terms rest 0 None [] of
                None \<Rightarrow> Inl (ErrorString (''time: invalid duration '' @ s))
              | Some d \<Rightarrow>
                  if neg \<and> d \<le> 2 ^ 63 then Inr (- int d)
                  else if \<not> neg \<and> d < 2 ^ 63 then Inr (int d)
                  else Inl (ErrorString (''time: invalid duration '' @ s)))"

definition std_ParseFloat :: "string \<Rightarrow> nat \<Rightarrow> error + real" where
  "std_ParseFloat s bitSize =
     (let neg = (s \<noteq> [] \<and> hd s = CHR ''-'');
          rest = (if s \<noteq> [] \<and> (hd s = CHR ''+'' \<or> hd s = CHR ''-'') then tl s else s);
          ip = takeWhile (\<lambda>c. c \<noteq> CHR ''.'') rest;
          fp = drop (Suc (length ip)) rest
      in if ip @ fp = [] then Inl (syntaxError ''ParseFloat'' s)
         else case digits ''ParseFloat'' s 10 (10 ^ length (ip @ fp)) (ip @ fp) 0 of
                Inl e \<Rightarrow> Inl e
              | Inr n \<Rightarrow> Inr ((if neg then - 1 else 1) * real n / 10 ^ length fp))"

definition std :: "real stdlib" where
  "std = \<lparr>ParseInt = std_ParseInt, ParseUint = std_ParseUint, ParseBool = std_ParseBool,
          ParseFloat = std_ParseFloat, ParseDuration = std_ParseDuration,
          TrimSpace = std_TrimSpace, float32 = (\<lambda>x. x)\<rparr>"

subsection \<open>Canonical forms\<close>






section \<open>Properties\<close>

subsection \<open>Auxiliary facts\<close>

lemma Kind_of_Int64: "Kind_of (TInt w pkg name) = KInt64 \<longleftrightarrow> w = W64"
  by (cases w) simp_all

lemma Kind_of_Ptr: "Kind_of t = KPtr \<longleftrightarrow> (\<exists>st. t = TPtr st)"
  by (cases t rule: Kind_of.cases) (simp_all, (case_tac k; simp))

lemma processElems_find:
  "processElems L el vals =
     (case find (\<lambda>s. snd (processField L s el (Zero el)) \<noteq> None) vals of
        Some s \<Rightarrow> Inl (the (snd (processField L s el (Zero el))))
      | None \<Rightarrow> Inr (map (\<lambda>s. fst (processField L s el (Zero el))) vals))"
  by (induction vals) (auto split: prod.splits option.splits sum.splits)

lemma processPairs_Cons:
  "processPairs L kt vt (pair # pairs) mp =
     (case decodePair L kt vt pair of
        Inl e \<Rightarrow> Inl e
      | Inr (k, v) \<Rightarrow> processPairs L kt vt pairs (AList.update k v mp))"
  by (simp add: decodePair_def Let_def split: prod.splits option.splits)

lemma insertPair_simps [simp]:
  "insertPair (Inl e) mp = mp"
  "insertPair (Inr (k, v)) mp = AList.update k v mp"
  by (simp_all add: insertPair_def)

lemma processPairs_find:
  "processPairs L kt vt pairs mp =
     (case find (\<lambda>p. isl (decodePair L kt vt p)) pairs of
        Some p \<Rightarrow> Inl (projl (decodePair L kt vt p))
      | None \<Rightarrow> Inr (fold (\<lambda>p. insertPair (decodePair L kt vt p)) pairs mp))"
proof (induction pairs arbitrary: mp)
  case Nil
  show ?case by simp
next
  case (Cons p ps)
  show ?case
    unfolding processPairs_Cons
    by (cases "decodePair L kt vt p") (auto simp: Cons.IH split: option.splits)
qed

lemma processField_error_unchanged:
  "snd (processField L value t field) = Some e \<Longrightarrow> fst (processField L value t field) = field"
  by (cases t) (auto simp: Set_bytes_def split: sum.splits if_splits)

text \<open>The definitions that evaluate \<open>std\<close> and the setters on a concrete input.\<close>

lemmas std_eval =
  std_def std_TrimSpace_def isSpace_def std_ParseInt_def std_ParseUint_def parse_uint_def
  digit_def lower_def syntaxError_def rangeError_def std_ParseDuration_def unit_ns_def
  std_ParseBool_def SetInt_def SetUint_def bytes_def Set_bytes_def decodePair_def Let_def

lemma SetInt_in_range:
  "- (2 ^ (Bits w - 1)) \<le> n \<Longrightarrow> n < 2 ^ (Bits w - 1) \<Longrightarrow> SetInt w n = VInt n"
proof -
  assume lo: "- (2 ^ (Bits w - 1)) \<le> n" and hi: "n < 2 ^ (Bits w - 1)"
  have pw: "(2::int) ^ Bits w = 2 * 2 ^ (Bits w - 1)"
    by (cases w) simp_all
  have "0 \<le> n + 2 ^ (Bits w - 1)" "n + 2 ^ (Bits w - 1) < 2 ^ Bits w"
    using lo hi by (simp_all add: pw)
  then have "(n + 2 ^ (Bits w - 1)) mod 2 ^ Bits w = n + 2 ^ (Bits w - 1)"
    by simp
  then show ?thesis
    by (simp add: SetInt_def)
qed

lemma dropWhile_all: "(\<forall>c\<in>set s. P c) \<Longrightarrow> dropWhile P s = []"
  by (induction s) auto

lemma blank_std_TrimSpace: "(\<forall>c\<in>set s. isSpace c) \<Longrightarrow> std_TrimSpace s = []"
  by (simp add: std_TrimSpace_def dropWhile_all)

lemma processField_slice:
  "processField L raw (TSlice el) field =
     (if Kind_of el = KUint8 then Set_bytes el (VSlice (map (\<lambda>c. VUint (of_char c)) raw)) field
      else if TrimSpace L raw = [] then (VSlice [], None)
      else
        (case find (\<lambda>s. snd (processField L s el (Zero el)) \<noteq> None) (Split raw CHR '','') of
           Some s \<Rightarrow> (field, snd (processField L s el (Zero el)))
         | None \<Rightarrow>
             (VSlice (map (\<lambda>s. fst (processField L s el (Zero el))) (Split raw CHR '','')), None)))"
  by (auto simp: processElems_find bytes_def split: option.splits dest: find_Some_iff [THEN iffD1])

lemma processField_map:
  "processField L raw (TMap kt vt) field =
     (if TrimSpace L raw = [] then (VMap [], None)
      else
        (case find (\<lambda>p. isl (decodePair L kt vt p)) (Split raw CHR '','') of
           Some p \<Rightarrow> (field, Some (projl (decodePair L kt vt p)))
         | None \<Rightarrow>
             (VMap (fold (\<lambda>p. insertPair (decodePair L kt vt p)) (Split raw CHR '','') []), None)))"
  by (auto simp: processPairs_find split: option.splits)

lemma decodePair_malformed:
  "length (Split p CHR '':'') \<noteq> 2 \<Longrightarrow>
   decodePair L kt vt p = Inl (Err (Errorf ''invalid map item: %q'' [p]))"
  by (simp add: decodePair_def)

lemma decodePair_ok:
  "Split p CHR '':'' = [a, b] \<Longrightarrow> processField L a kt (Zero kt) = (k, None) \<Longrightarrow>
   processField L b vt (Zero vt) = (v, None) \<Longrightarrow> decodePair L kt vt p = Inr (k, v)"
  by (simp add: decodePair_def)

lemma decodePair_key_fails:
  "Split p CHR '':'' = [a, b] \<Longrightarrow> snd (processField L a kt (Zero kt)) = Some e \<Longrightarrow>
   decodePair L kt vt p = Inl e"
  by (auto simp: decodePair_def split: prod.splits option.splits)

lemma decodePair_value_fails:
  "Split p CHR '':'' = [a, b] \<Longrightarrow> snd (processField L a kt (Zero kt)) = None \<Longrightarrow>
   snd (processField L b vt (Zero vt)) = Some e \<Longrightarrow> decodePair L kt vt p = Inl e"
  by (auto simp: decodePair_def split: prod.splits option.splits)

lemma find_first:
  "\<exists>x\<in>set xs. P x \<Longrightarrow> \<exists>x\<in>set xs. P x \<and> find P xs = Some x"
  by (induction xs) auto

lemmas walk_eval =
  NestedStringConfig_def SmallConfig_def NoTagConfig_def Config_def enqueue_def Value_Field_def
  CanSet_def Tag_Get_def upt_rec

lemma fill_no_infos: "fill L [] params s = (s, None)"
  by (induction params) simp_all

text \<open>The queue loop against the specification's reading.\<close>

lemma bound_leaf_name:
  "bound_leaf pre base fs p = Some (k, r) \<Longrightarrow>
   k = pre @ concat (tags_on_path fs p) \<and> path r = base @ p"
proof (induction p arbitrary: pre base fs)
  case Nil
  then show ?case by simp
next
  case (Cons i p)
  show ?case
  proof (cases "Kind_of (Type (fs ! i)) = KStruct")
    case True
    with Cons.prems have
      "bound_leaf (pre @ Tag_Get (Tag (fs ! i)) ''ssmparam'') (base @ [i]) (Fields (Type (fs ! i))) p
         = Some (k, r)" and "i < length fs"
      by (auto split: if_splits)
    with Cons.IH show ?thesis by fastforce
  next
    case False
    with Cons.prems show ?thesis
      by (auto split: if_splits simp: Value_Field_def)
  qed
qed

lemma bound_leaf_Cons:
  "bound_leaf pre base fs (i # p) =
     (if i < length fs then q_leaf (enqueue base fs pre ! i) p else None)"
  by (simp add: q_leaf_def enqueue_def Value_Field_def CanSet_def Let_def)

lemma queue_leaves_Nil: "queue_leaves [] = {}"
  by (simp add: queue_leaves_def)

lemma queue_leaves_Cons: "queue_leaves (q # queue) = {e. \<exists>p. q_leaf q p = Some e} \<union> queue_leaves queue"
  by (auto simp: queue_leaves_def)

lemma queue_leaves_append: "queue_leaves (xs @ ys) = queue_leaves xs \<union> queue_leaves ys"
  by (auto simp: queue_leaves_def)

lemma queue_leaves_enqueue:
  "queue_leaves (enqueue base fs pre) = {e. \<exists>p. p \<noteq> [] \<and> bound_leaf pre base fs p = Some e}"
proof -
  have len: "length (enqueue base fs pre) = length fs"
    by (simp add: enqueue_def)
  have "e \<in> queue_leaves (enqueue base fs pre) \<longleftrightarrow> (\<exists>p. p \<noteq> [] \<and> bound_leaf pre base fs p = Some e)" for e
  proof
    assume "e \<in> queue_leaves (enqueue base fs pre)"
    then obtain i p where "i < length fs" "q_leaf (enqueue base fs pre ! i) p = Some e"
      by (auto simp: queue_leaves_def in_set_conv_nth len)
    then have "bound_leaf pre base fs (i # p) = Some e"
      by (simp only: bound_leaf_Cons if_True)
    then show "\<exists>p. p \<noteq> [] \<and> bound_leaf pre base fs p = Some e"
      by blast
  next
    assume "\<exists>p. p \<noteq> [] \<and> bound_leaf pre base fs p = Some e"
    then obtain i p where ip: "bound_leaf pre base fs (i # p) = Some e"
      by (metis neq_Nil_conv)
    then have "i < length fs" "q_leaf (enqueue base fs pre ! i) p = Some e"
      unfolding bound_leaf_Cons by (simp_all split: if_splits)
    moreover from this have "enqueue base fs pre ! i \<in> set (enqueue base fs pre)"
      by (simp add: len)
    ultimately show "e \<in> queue_leaves (enqueue base fs pre)"
      unfolding queue_leaves_def by blast
  qed
  then show ?thesis by blast
qed

lemma q_leaf_struct:
  "CanSet (q_field q) \<Longrightarrow> Kind_of (vtype (q_field q)) = KStruct \<Longrightarrow>
   {e. \<exists>p. q_leaf q p = Some e} =
     queue_leaves (enqueue (path (q_field q)) (Fields (vtype (q_field q)))
                    (q_prefix q @ Tag_Get (Tag (q_fieldType q)) ''ssmparam''))"
proof -
  assume a: "CanSet (q_field q)" "Kind_of (vtype (q_field q)) = KStruct"
  have "q_leaf q p = Some e \<longleftrightarrow>
          p \<noteq> [] \<and> bound_leaf (q_prefix q @ Tag_Get (Tag (q_fieldType q)) ''ssmparam'')
                       (path (q_field q)) (Fields (vtype (q_field q))) p = Some e" for p e
    using a by (cases p) (simp_all add: q_leaf_def)
  then show ?thesis
    by (simp add: queue_leaves_enqueue)
qed

lemma q_leaf_unset: "\<not> CanSet (q_field q) \<Longrightarrow> {e. \<exists>p. q_leaf q p = Some e} = {}"
  by (simp add: q_leaf_def)

lemma q_leaf_untagged:
  "CanSet (q_field q) \<Longrightarrow> Kind_of (vtype (q_field q)) \<noteq> KStruct \<Longrightarrow>
   Tag_Get (Tag (q_fieldType q)) ''ssmparam'' = [] \<Longrightarrow> {e. \<exists>p. q_leaf q p = Some e} = {}"
  by (simp add: q_leaf_def)

lemma q_leaf_tagged:
  "CanSet (q_field q) \<Longrightarrow> Kind_of (vtype (q_field q)) \<noteq> KStruct \<Longrightarrow>
   Tag_Get (Tag (q_fieldType q)) ''ssmparam'' \<noteq> [] \<Longrightarrow>
   {e. \<exists>p. q_leaf q p = Some e} = {(q_prefix q @ Tag_Get (Tag (q_fieldType q)) ''ssmparam'', q_field q)}"
  by (auto simp: q_leaf_def)

lemma set_update_subset: "set (AList.update k v al) \<subseteq> insert (k, v) (set al)"
  by (induction al) auto

lemma walk_keys:
  "fst ` set (walk queue infos) = fst ` set infos \<union> fst ` queue_leaves queue"
proof (induction queue infos rule: walk.induct)
  case (1 infos)
  show ?case by (simp add: queue_leaves_Nil)
next
  case (2 q queue infos)
  let ?tag = "Tag_Get (Tag (q_fieldType q)) ''ssmparam''"
  consider (ro) "\<not> CanSet (q_field q)"
    | (struct) "CanSet (q_field q)" "Kind_of (vtype (q_field q)) = KStruct"
    | (untagged) "CanSet (q_field q)" "Kind_of (vtype (q_field q)) \<noteq> KStruct" "?tag = []"
    | (tagged) "CanSet (q_field q)" "Kind_of (vtype (q_field q)) \<noteq> KStruct" "?tag \<noteq> []"
    by blast
  then show ?case
  proof cases
    case ro
    with "2.IH"(1) show ?thesis
      by (simp add: queue_leaves_Cons q_leaf_unset)
  next
    case struct
    with "2.IH"(2) [OF _ refl] show ?thesis
      by (simp add: queue_leaves_Cons queue_leaves_append q_leaf_struct Un_commute)
  next
    case untagged
    with "2.IH"(3) [OF _ refl] show ?thesis
      by (simp add: queue_leaves_Cons q_leaf_untagged)
  next
    case tagged
    with "2.IH"(4) [OF _ refl] show ?thesis
      by (simp add: queue_leaves_Cons q_leaf_tagged AList.dom_update)
  qed
qed

lemma walk_entries:
  "set (walk queue infos) \<subseteq> set infos \<union> queue_leaves queue"
proof (induction queue infos rule: walk.induct)
  case (1 infos)
  show ?case by simp
next
  case (2 q queue infos)
  let ?tag = "Tag_Get (Tag (q_fieldType q)) ''ssmparam''"
  consider (ro) "\<not> CanSet (q_field q)"
    | (struct) "CanSet (q_field q)" "Kind_of (vtype (q_field q)) = KStruct"
    | (untagged) "CanSet (q_field q)" "Kind_of (vtype (q_field q)) \<noteq> KStruct" "?tag = []"
    | (tagged) "CanSet (q_field q)" "Kind_of (vtype (q_field q)) \<noteq> KStruct" "?tag \<noteq> []"
    by blast
  then show ?case
  proof cases
    case ro
    with "2.IH"(1) show ?thesis
      by (auto simp: queue_leaves_Cons)
  next
    case struct
    with "2.IH"(2) [OF _ refl] show ?thesis
      by (auto simp: queue_leaves_Cons queue_leaves_append q_leaf_struct)
  next
    case untagged
    with "2.IH"(3) [OF _ refl] show ?thesis
      by (auto simp: queue_leaves_Cons)
  next
    case tagged
    with "2.IH"(4) [OF _ refl] set_update_subset [of "q_prefix q @ ?tag" "q_field q" infos]
    show ?thesis
      by (auto simp: queue_leaves_Cons q_leaf_tagged)
  qed
qed

lemma Config_names: "map fst (walk (enqueue [] (Fields Config) []) []) =
  [''/test/key'', ''/test/number'', ''/test/uint'', ''/test/bool'', ''/test/float'', ''/test/floatslice'',
   ''/test/duration'', ''/test/map'', ''/nested/key'', ''/inline/key'']"
  by (simp add: walk_eval)

lemma no_leaves_walk_empty:
  "(\<forall>p. bound_leaf pre [] fs p = None) \<Longrightarrow> walk (enqueue [] fs pre) [] = []"
proof -
  assume "\<forall>p. bound_leaf pre [] fs p = None"
  then have "queue_leaves (enqueue [] fs pre) = {}"
    by (simp add: queue_leaves_enqueue)
  then have "fst ` set (walk (enqueue [] fs pre) []) = {}"
    by (simp add: walk_keys)
  then show ?thesis
    by simp
qed

lemma NoTagConfig_unbound: "bound_leaf pre base (Fields NoTagConfig) p = None"
proof (cases p)
  case Nil
  then show ?thesis by simp
next
  case (Cons i p')
  then show ?thesis
    by (cases i) (simp_all add: NoTagConfig_def Tag_Get_def)
qed

subsection \<open>The scalar cases and the package's test\<close>

text \<open>
  The cases of \<open>processField\<close> for text, booleans, unsigned integers and floats: the
  raw string itself, or what the library's parser returns, converted to the field's
  width; a parse error is returned and the field keeps its value.
\<close>

lemma scalar_decode:
  "processField L raw TString field = (VString raw, None)"
  "processField L raw TBool field =
     (case ParseBool L raw of Inl e \<Rightarrow> (field, Some (Err e)) | Inr b \<Rightarrow> (VBool b, None))"
  "processField L raw (TUint w pkg name) field =
     (case ParseUint L raw 0 (Bits w) of
        Inl e \<Rightarrow> (field, Some (Err e))
      | Inr n \<Rightarrow> (VUint (n mod 2 ^ Bits w), None))"
  "processField L raw (TFloat fw) field =
     (case ParseFloat L raw (FBits fw) of
        Inl e \<Rightarrow> (field, Some (Err e))
      | Inr x \<Rightarrow> (VFloat (case fw of F32 \<Rightarrow> float32 L x | F64 \<Rightarrow> x), None))"
  by (simp_all add: SetUint_def SetFloat_def split: sum.splits)

text \<open>
  The test "reads values from ssm" of the package, run on the model with \<open>std\<close>:
  every field of \<open>Config\<close> receives the value the test expects (the floats as exact
  reals), and the request names the ten parameters.
\<close>

lemma Config_infos:
  "walk (enqueue [] (Fields Config) []) [] =
    [(''/test/key'', \<lparr>path = [0], vtype = TString, flagRO = False\<rparr>),
     (''/test/number'', \<lparr>path = [1], vtype = TInt WPlain [] ''int'', flagRO = False\<rparr>),
     (''/test/uint'', \<lparr>path = [2], vtype = TUint WPlain [] ''uint'', flagRO = False\<rparr>),
     (''/test/bool'', \<lparr>path = [3], vtype = TBool, flagRO = False\<rparr>),
     (''/test/float'', \<lparr>path = [4], vtype = TFloat F64, flagRO = False\<rparr>),
     (''/test/floatslice'', \<lparr>path = [5], vtype = TSlice (TFloat F64), flagRO = False\<rparr>),
     (''/test/duration'', \<lparr>path = [6], vtype = TInt W64 ''time'' ''Duration'', flagRO = False\<rparr>),
     (''/test/map'', \<lparr>path = [7], vtype = TMap TString TString, flagRO = False\<rparr>),
     (''/nested/key'', \<lparr>path = [8, 0], vtype = TString, flagRO = False\<rparr>),
     (''/inline/key'', \<lparr>path = [9, 0], vtype = TString, flagRO = False\<rparr>)]"
  by (simp add: walk_eval)

lemma Zero_Config:
  "(Zero Config :: real goval) =
     VStruct [VString [], VInt 0, VUint 0, VBool False, VFloat 0, VNil, VInt 0, VNil,
              VStruct [VString []], VStruct [VString []]]"
  by (simp add: Config_def NestedStringConfig_def)

lemma Process_reads_values:
  "Process std (\<lambda>i. Inr test_parameters) [] (Iface (TPtr Config) (VPtr (Zero Config))) =
     \<lparr>ended = None,
      spec_after = Iface (TPtr Config)
        (VPtr (VStruct
           [VString ''testkey'', VInt (- 314), VUint 314, VBool True, VFloat (314159 / 100000),
            VSlice [VFloat (314159 / 100000), VFloat (2618034 / 1000000), VFloat (2718 / 1000)],
            VInt 300000000000,
            VMap [(VString ''first_name'', VString ''Test''), (VString ''last_name'', VString ''McTest''),
                  (VString ''email'', VString ''Test@test.com'')],
            VStruct [VString ''nestedkey''], VStruct [VString ''inlinekey'']])),
      requests = [\<lparr>Names = [''/test/key'', ''/test/number'', ''/test/uint'', ''/test/bool'',
                            ''/test/float'', ''/test/floatslice'', ''/test/duration'', ''/test/map'',
                            ''/nested/key'', ''/inline/key''],
                   WithDecryption = Some True\<rparr>]\<rparr>"
proof -
  have c: "Config = TStruct (Fields Config)"
    by (simp add: Config_def)
  have "fill std (walk (enqueue [] (Fields Config) []) []) test_parameters (Zero Config) =
     (VStruct
           [VString ''testkey'', VInt (- 314), VUint 314, VBool True, VFloat (314159 / 100000),
            VSlice [VFloat (314159 / 100000), VFloat (2618034 / 1000000), VFloat (2718 / 1000)],
            VInt 300000000000,
            VMap [(VString ''first_name'', VString ''Test''), (VString ''last_name'', VString ''McTest''),
                  (VString ''email'', VString ''Test@test.com'')],
            VStruct [VString ''nestedkey''], VStruct [VString ''inlinekey'']], None)"
    unfolding Config_infos Zero_Config test_parameters_def
    by (simp add: std_eval StringValue_def std_ParseFloat_def SetFloat_def)
  then show ?thesis
    by (subst (1 2) c) (simp add: Process_def Config_infos)
qed

subsection \<open>Invalid arguments\<close>

text \<open>
  C2. \<open>Process\<close> returns an error without sending a request to the store, and leaves
  its argument as it was, when the argument is the nil interface, a value that is not a
  pointer, or a pointer to something that is not a struct (a nil pointer included). The
  first two cases return the message "spec must be non-nil pointer", the pointer cases
  "spec must be a struct type", and the two messages differ. The queue is only built
  after both checks, so nothing is traversed either.
\<close>

theorem Process_invalid_spec:
  "Process L ssmsvc pre NilIface =
     \<lparr>ended = Some (Err (ErrorString ''spec must be non-nil pointer'')),
      spec_after = NilIface, requests = []\<rparr>
   \<and> (Kind_of t \<noteq> KPtr \<longrightarrow>
        Process L ssmsvc pre (Iface t v) =
          \<lparr>ended = Some (Err (ErrorString ''spec must be non-nil pointer'')),
           spec_after = Iface t v, requests = []\<rparr>)
   \<and> (Kind_of st \<noteq> KStruct \<longrightarrow>
        Process L ssmsvc pre (Iface (TPtr st) pv) =
          \<lparr>ended = Some (Err (ErrorString ''spec must be a struct type'')),
           spec_after = Iface (TPtr st) pv, requests = []\<rparr>)
   \<and> Process L ssmsvc pre (Iface (TPtr st) VNil) =
          \<lparr>ended = Some (Err (ErrorString ''spec must be a struct type'')),
           spec_after = Iface (TPtr st) VNil, requests = []\<rparr>
   \<and> ErrorString ''spec must be non-nil pointer'' \<noteq> ErrorString ''spec must be a struct type''"
proof (intro conjI impI)
  show "Process L ssmsvc pre NilIface =
     \<lparr>ended = Some (Err (ErrorString ''spec must be non-nil pointer'')),
      spec_after = NilIface, requests = []\<rparr>"
    by (simp add: Process_def)
next
  assume "Kind_of t \<noteq> KPtr"
  then show "Process L ssmsvc pre (Iface t v) =
          \<lparr>ended = Some (Err (ErrorString ''spec must be non-nil pointer'')),
           spec_after = Iface t v, requests = []\<rparr>"
    by (cases t) (simp_all add: Process_def)
next
  assume "Kind_of st \<noteq> KStruct"
  then show "Process L ssmsvc pre (Iface (TPtr st) pv) =
          \<lparr>ended = Some (Err (ErrorString ''spec must be a struct type'')),
           spec_after = Iface (TPtr st) pv, requests = []\<rparr>"
    by (cases pv) (simp_all add: Process_def)
next
  show "Process L ssmsvc pre (Iface (TPtr st) VNil) =
          \<lparr>ended = Some (Err (ErrorString ''spec must be a struct type'')),
           spec_after = Iface (TPtr st) VNil, requests = []\<rparr>"
    by (simp add: Process_def)
next
  show "ErrorString ''spec must be non-nil pointer'' \<noteq> ErrorString ''spec must be a struct type''"
    by simp
qed

theorem Process_invalid_spec_witness:
  "Kind_of (TInt WPlain [] ''int'') \<noteq> KPtr
   \<and> Process std (\<lambda>i. Inr []) [] (Iface (TInt WPlain [] ''int'') (VInt 1)) =
          \<lparr>ended = Some (Err (ErrorString ''spec must be non-nil pointer'')),
           spec_after = Iface (TInt WPlain [] ''int'') (VInt 1), requests = []\<rparr>
   \<and> Kind_of (TInt WPlain [] ''int'') \<noteq> KStruct
   \<and> Process std (\<lambda>i. Inr []) [] (Iface (TPtr (TInt WPlain [] ''int'')) (VPtr (VInt 1))) =
          \<lparr>ended = Some (Err (ErrorString ''spec must be a struct type'')),
           spec_after = Iface (TPtr (TInt WPlain [] ''int'')) (VPtr (VInt 1)), requests = []\<rparr>"
  using Process_invalid_spec [where L = std and ssmsvc = "\<lambda>i. Inr []" and pre = "[]"
      and t = "TInt WPlain [] ''int''" and v = "VInt 1"
      and st = "TInt WPlain [] ''int''" and pv = "VPtr (VInt 1)"]
  by simp

subsection \<open>Decoding signed integers and durations\<close>

text \<open>
  C5. For a destination of any signed integer kind, \<open>processField\<close> parses the raw
  string with \<open>ParseInt\<close> in base 0 (the base is taken from the literal's prefix) and
  with the bit size of the field's type, unless the type is \<open>time.Duration\<close> (kind
  \<open>int64\<close>, package "time", name "Duration"), for which it parses with
  \<open>ParseDuration\<close>. In either branch a parse error is returned as it is and the field
  keeps its value; a parsed number is stored, and a number that fits the field's width
  is stored unchanged. With the library instance \<open>std\<close>: "0x1F" and "0o17" are read
  by their prefix, "300" does not fit an \<open>int8\<close>, "5m" and "1h30m" are durations but
  not integers, and "5" is an integer but not a duration.
\<close>

theorem signed_integer_decode:
  "processField L raw (TInt w pkg name) field =
     (if w = W64 \<and> pkg = ''time'' \<and> name = ''Duration'' then
        (case ParseDuration L raw of
           Inl e \<Rightarrow> (field, Some (Err e))
         | Inr d \<Rightarrow> (SetInt w d, None))
      else
        (case ParseInt L raw 0 (Bits w) of
           Inl e \<Rightarrow> (field, Some (Err e))
         | Inr i \<Rightarrow> (SetInt w i, None)))
   \<and> (- (2 ^ (Bits w - 1)) \<le> x \<and> x < 2 ^ (Bits w - 1) \<longrightarrow> SetInt w x = (VInt x :: 'f goval))
   \<and> processField std ''0x1F'' (TInt W8 [] ''int8'') (VInt 0) = (VInt 31, None)
   \<and> processField std ''0o17'' (TInt W16 [] ''int16'') (VInt 0) = (VInt 15, None)
   \<and> processField std ''-314'' (TInt WPlain [] ''int'') (VInt 0) = (VInt (- 314), None)
   \<and> processField std ''5m'' (TInt W64 ''time'' ''Duration'') (VInt 0) = (VInt 300000000000, None)
   \<and> processField std ''1h30m'' (TInt W64 ''time'' ''Duration'') (VInt 0) = (VInt 5400000000000, None)
   \<and> fst (processField std ''300'' (TInt W8 [] ''int8'') (VInt 7)) = VInt 7
   \<and> (\<exists>e. snd (processField std ''300'' (TInt W8 [] ''int8'') (VInt 7)) = Some (Err e))
   \<and> (\<exists>e. snd (processField std ''5m'' (TInt W64 [] ''int64'') (VInt 7)) = Some (Err e))
   \<and> (\<exists>e. snd (processField std ''5'' (TInt W64 ''time'' ''Duration'') (VInt 7)) = Some (Err e))"
proof -
  have general: "processField L raw (TInt w pkg name) field =
     (if w = W64 \<and> pkg = ''time'' \<and> name = ''Duration'' then
        (case ParseDuration L raw of
           Inl e \<Rightarrow> (field, Some (Err e))
         | Inr d \<Rightarrow> (SetInt w d, None))
      else
        (case ParseInt L raw 0 (Bits w) of
           Inl e \<Rightarrow> (field, Some (Err e))
         | Inr i \<Rightarrow> (SetInt w i, None)))"
    by (simp add: Kind_of_Int64)
  have fits: "- (2 ^ (Bits w - 1)) \<le> x \<and> x < 2 ^ (Bits w - 1) \<longrightarrow> SetInt w x = (VInt x :: 'f goval)"
    by (simp add: SetInt_in_range)
  have examples:
    "processField std ''0x1F'' (TInt W8 [] ''int8'') (VInt 0) = (VInt 31, None)"
    "processField std ''0o17'' (TInt W16 [] ''int16'') (VInt 0) = (VInt 15, None)"
    "processField std ''-314'' (TInt WPlain [] ''int'') (VInt 0) = (VInt (- 314), None)"
    "processField std ''5m'' (TInt W64 ''time'' ''Duration'') (VInt 0) = (VInt 300000000000, None)"
    "processField std ''1h30m'' (TInt W64 ''time'' ''Duration'') (VInt 0) = (VInt 5400000000000, None)"
    "fst (processField std ''300'' (TInt W8 [] ''int8'') (VInt 7)) = VInt 7"
    "(\<exists>e. snd (processField std ''300'' (TInt W8 [] ''int8'') (VInt 7)) = Some (Err e))"
    "(\<exists>e. snd (processField std ''5m'' (TInt W64 [] ''int64'') (VInt 7)) = Some (Err e))"
    "(\<exists>e. snd (processField std ''5'' (TInt W64 ''time'' ''Duration'') (VInt 7)) = Some (Err e))"
    by (simp_all add: std_eval)
  from general fits examples show ?thesis
    by (intro conjI)
qed

theorem signed_integer_decode_witness:
  "- (2 ^ (Bits W8 - 1)) \<le> (- 128 :: int) \<and> (- 128 :: int) < 2 ^ (Bits W8 - 1)
   \<and> SetInt W8 (- 128) = (VInt (- 128) :: real goval)
   \<and> processField std ''-128'' (TInt W8 [] ''int8'') (VInt 0) = (VInt (- 128), None)"
  using signed_integer_decode [where L = std and raw = "''-128''" and w = W8 and pkg = "[]"
      and name = "''int8''" and field = "VInt 0" and x = "- 128"]
  by (simp add: std_eval)

subsection \<open>Decoding slices\<close>

text \<open>
  C3, as amended. For a destination of slice type: when the element type is the type
  \<open>uint8\<close> (\<open>byte\<close>) itself, the field becomes the bytes of the raw string, with no
  splitting. When the element kind is not \<open>uint8\<close>: a raw string that is empty or
  white space only makes the field the empty non-nil slice; any other raw string is
  split at every comma, each segment is decoded as the element type in order, and the
  field becomes the slice of the results, or keeps its value when a segment fails,
  and the decoding then ends with the failure of the first such segment. A
  destination of array type is not decoded at all: the field keeps its value and no
  error is returned. (An element type that is a defined type of kind \<open>uint8\<close> is left
  out of the statement; see \<open>defined_byte_slice_panics\<close> below.)
\<close>

theorem slice_decode:
  "processField L raw (TSlice (TUint W8 [] ''uint8'')) bfield =
      (VSlice (map (\<lambda>c. VUint (of_char c)) raw), None)
   \<and> (Kind_of el \<noteq> KUint8 \<longrightarrow>
      processField L raw (TSlice el) field =
        (if TrimSpace L raw = [] then (VSlice [], None)
         else
           (case find (\<lambda>s. snd (processField L s el (Zero el)) \<noteq> None) (Split raw CHR '','') of
              Some s \<Rightarrow> (field, snd (processField L s el (Zero el)))
            | None \<Rightarrow>
                (VSlice (map (\<lambda>s. fst (processField L s el (Zero el))) (Split raw CHR '','')), None))))
   \<and> processField L raw (TArray n ael) afield = (afield, None)"
proof (intro conjI impI)
  show "processField L raw (TSlice (TUint W8 [] ''uint8'')) bfield =
      (VSlice (map (\<lambda>c. VUint (of_char c)) raw), None)"
    by (simp add: bytes_def Set_bytes_def)
next
  assume "Kind_of el \<noteq> KUint8"
  then show "processField L raw (TSlice el) field =
        (if TrimSpace L raw = [] then (VSlice [], None)
         else
           (case find (\<lambda>s. snd (processField L s el (Zero el)) \<noteq> None) (Split raw CHR '','') of
              Some s \<Rightarrow> (field, snd (processField L s el (Zero el)))
            | None \<Rightarrow>
                (VSlice (map (\<lambda>s. fst (processField L s el (Zero el))) (Split raw CHR '','')), None)))"
    by (subst processField_slice) simp
next
  show "processField L raw (TArray n ael) afield = (afield, None)"
    by simp
qed

theorem slice_decode_witness:
  "processField std ''hi'' (TSlice (TUint W8 [] ''uint8'')) VNil = (VSlice [VUint 104, VUint 105], None)
   \<and> Kind_of (TInt WPlain [] ''int'') \<noteq> KUint8
   \<and> processField std ''3,4'' (TSlice (TInt WPlain [] ''int'')) VNil = (VSlice [VInt 3, VInt 4], None)
   \<and> processField std ''3,4'' (TArray 2 (TInt WPlain [] ''int'')) (VArray [VInt 0, VInt 0]) =
       (VArray [VInt 0, VInt 0], None)"
  using slice_decode [where L = std and raw = "''hi''" and el = "TInt WPlain [] ''int''"
      and bfield = VNil and field = VNil and n = 2 and ael = "TInt WPlain [] ''int''" and afield = "VArray [VInt 0, VInt 0]"]
    slice_decode [where L = std and raw = "''3,4''" and el = "TInt WPlain [] ''int''"
      and bfield = VNil and field = VNil and n = 2 and ael = "TInt WPlain [] ''int''" and afield = "VArray [VInt 0, VInt 0]"]
  by (simp add: std_eval)

text \<open>
  C3 as stated fails for a fixed-length array: "1,2" decodes into a slice of two
  integers, and leaves an array of two integers at its zero values without an error.
\<close>

theorem array_decode_counterexample:
  "processField std ''1,2'' (TSlice (TInt WPlain [] ''int'')) VNil = (VSlice [VInt 1, VInt 2], None)
   \<and> processField std ''1,2'' (TArray 2 (TInt WPlain [] ''int'')) (VArray [VInt 0, VInt 0]) =
       (VArray [VInt 0, VInt 0], None)
   \<and> VArray [VInt 0, VInt 0] \<noteq> (VArray [VInt 1, VInt 2] :: real goval)"
  by (simp add: std_eval)

text \<open>
  A slice field whose element type is a defined type of kind \<open>uint8\<close>, such as
  \<open>[]MyByte\<close> with \<open>type MyByte uint8\<close>, takes the byte branch as well, and there
  \<open>field.Set\<close> panics, a \<open>[]uint8\<close> not being assignable to \<open>[]MyByte\<close>: the call does
  not return, and the field keeps its value. \<open>Process\<close> ends with that panic after it
  has sent its request.
\<close>

lemma defined_byte_slice_panics:
  "Kind_of el = KUint8 \<Longrightarrow> el \<noteq> TUint W8 [] ''uint8'' \<Longrightarrow>
     processField L raw (TSlice el) field =
       (field, Some (Panic ''reflect.Set: value of type []uint8 is not assignable''))"
  "processField L raw (TSlice (TUint W8 ''main'' ''MyByte'')) field =
     (field, Some (Panic ''reflect.Set: value of type []uint8 is not assignable''))"
  by (simp_all add: Set_bytes_def)

lemma Process_defined_byte_slice_panics:
  "Process std (\<lambda>i. Inr [\<lparr>P_Name = Some ''/raw'', P_Value = Some ''hi''\<rparr>]) []
     (Iface (TPtr (TStruct [StructField ''Raw'' [] [(''ssmparam'', ''/raw'')]
                              (TSlice (TUint W8 ''main'' ''MyByte''))]))
        (VPtr (VStruct [VNil]))) =
     \<lparr>ended = Some (Panic ''reflect.Set: value of type []uint8 is not assignable''),
      spec_after = Iface (TPtr (TStruct [StructField ''Raw'' [] [(''ssmparam'', ''/raw'')]
                                           (TSlice (TUint W8 ''main'' ''MyByte''))]))
        (VPtr (VStruct [VNil])),
      requests = [\<lparr>Names = [''/raw''], WithDecryption = Some True\<rparr>]\<rparr>"
  by (simp add: Process_def walk_eval StringValue_def Set_bytes_def)

text \<open>
  C7. For a slice destination whose element kind is not \<open>uint8\<close>, a raw string that
  \<open>TrimSpace\<close> reduces to the empty string (for \<open>std\<close>: a string of white space
  only, the empty string included) decodes without error to the empty slice, which is
  not the nil slice.
\<close>

theorem blank_slice_is_empty:
  "(Kind_of el \<noteq> KUint8 \<and> TrimSpace L raw = [] \<longrightarrow>
      processField L raw (TSlice el) field = (VSlice [], None))
   \<and> (Kind_of el \<noteq> KUint8 \<and> (\<forall>c\<in>set raw. isSpace c) \<longrightarrow>
      processField std raw (TSlice el) sfield = (VSlice [], None))
   \<and> VSlice [] \<noteq> (VNil :: 'f goval)"
  by (simp add: processField_slice blank_std_TrimSpace std_def)

theorem blank_slice_is_empty_witness:
  "Kind_of (TFloat F64) \<noteq> KUint8 \<and> TrimSpace std '' '' = [] \<and> list_all isSpace '' ''
   \<and> processField std '' '' (TSlice (TFloat F64)) VNil = (VSlice [], None)
   \<and> processField std [] (TSlice (TFloat F64)) VNil = (VSlice [], None)"
  using blank_slice_is_empty [where L = std and raw = "'' ''" and el = "TFloat F64"
      and field = VNil and sfield = VNil]
    blank_slice_is_empty [where L = std and raw = "[]" and el = "TFloat F64"
      and field = VNil and sfield = VNil]
  by (simp add: std_eval)


subsection \<open>Decoding maps\<close>

text \<open>
  C6, as amended. For a destination of map type: a raw string that is empty or white
  space only decodes to the empty non-nil map; any other raw string is split at every
  comma into pairs, and the pairs are decoded from left to right. A pair that
  \<open>Split\<close> at ":" does not cut into exactly two parts ends the decoding with the error
  "invalid map item"; otherwise its first part is decoded as the key type and its
  second as the value type, and the entry is stored, replacing an earlier entry of
  the same key. The first pair that fails ends the decoding with its failure, and the
  field then keeps its value. "a:1,b:2" decodes to the two entries a:1 and b:2, and "a-1"
  fails.
\<close>

theorem map_decode:
  "processField L raw (TMap kt vt) field =
     (if TrimSpace L raw = [] then (VMap [], None)
      else
        (case find (\<lambda>p. isl (decodePair L kt vt p)) (Split raw CHR '','') of
           Some p \<Rightarrow> (field, Some (projl (decodePair L kt vt p)))
         | None \<Rightarrow>
             (VMap (fold (\<lambda>p. insertPair (decodePair L kt vt p)) (Split raw CHR '','') []), None)))
   \<and> (length (Split p CHR '':'') \<noteq> 2 \<longrightarrow>
        decodePair L kt vt p = Inl (Err (Errorf ''invalid map item: %q'' [p])))
   \<and> (Split p CHR '':'' = [a, b] \<and> processField L a kt (Zero kt) = (k, None)
        \<and> processField L b vt (Zero vt) = (v, None) \<longrightarrow>
        decodePair L kt vt p = Inr (k, v))
   \<and> processField std ''a:1,b:2'' (TMap TString (TInt WPlain [] ''int'')) VNil =
        (VMap [(VString ''a'', VInt 1), (VString ''b'', VInt 2)], None)
   \<and> processField std ''a-1'' (TMap TString (TInt WPlain [] ''int'')) VNil =
        (VNil, Some (Err (Errorf ''invalid map item: %q'' [''a-1''])))"
proof -
  have examples:
    "processField std ''a:1,b:2'' (TMap TString (TInt WPlain [] ''int'')) VNil =
        (VMap [(VString ''a'', VInt 1), (VString ''b'', VInt 2)], None)"
    "processField std ''a-1'' (TMap TString (TInt WPlain [] ''int'')) VNil =
        (VNil, Some (Err (Errorf ''invalid map item: %q'' [''a-1''])))"
    by (simp_all add: std_eval)
  have bad: "length (Split p CHR '':'') \<noteq> 2 \<longrightarrow>
        decodePair L kt vt p = Inl (Err (Errorf ''invalid map item: %q'' [p]))"
    by (simp add: decodePair_malformed)
  have ok: "Split p CHR '':'' = [a, b] \<and> processField L a kt (Zero kt) = (k, None)
        \<and> processField L b vt (Zero vt) = (v, None) \<longrightarrow>
        decodePair L kt vt p = Inr (k, v)"
    by (simp add: decodePair_ok)
  from processField_map [of L raw kt vt field] bad ok examples show ?thesis
    by (intro conjI)
qed

theorem map_decode_witness:
  "length (Split ''a-1'' CHR '':'') \<noteq> 2
   \<and> decodePair std TString TString ''a-1'' = Inl (Err (Errorf ''invalid map item: %q'' [''a-1'']))
   \<and> Split ''k:v'' CHR '':'' = [''k'', ''v'']
   \<and> decodePair std TString TString ''k:v'' = Inr (VString ''k'', VString ''v'')
   \<and> processField std ''k:v,k:w'' (TMap TString TString) VNil =
        (VMap [(VString ''k'', VString ''w'')], None)"
  using map_decode [where L = std and raw = "''k:v,k:w''" and kt = TString and vt = TString
      and field = VNil and p = "''a-1''"]
    map_decode [where L = std and raw = "''k:v,k:w''" and kt = TString and vt = TString
      and field = VNil and p = "''k:v''" and a = "''k''" and b = "''v''"
      and k = "VString ''k''" and v = "VString ''v''"]
  by (simp add: std_eval)

text \<open>
  C6 as stated fails for the empty raw string: its only pair, the empty string, does
  not split into two parts, and yet the decoding succeeds, with the empty map.
\<close>

theorem blank_map_counterexample:
  "Split [] CHR '','' = [[]] \<and> length (Split [] CHR '':'') \<noteq> 2
   \<and> processField std [] (TMap TString TString) VNil = (VMap [], None)
   \<and> processField std ''  '' (TMap TString TString) VNil = (VMap [], None)"
  by (simp add: std_eval)

subsection \<open>Container decoding is atomic\<close>

text \<open>
  C10. Whenever \<open>processField\<close> fails (it returns an error, or it panics), the
  field has the value it had before the call. When the element loop of a slice runs
  (the element kind is not \<open>uint8\<close> and the raw string is not blank) and some segment
  fails to decode, the decoding ends with the failure of such a segment and the field
  is unchanged; likewise for a map when some pair fails, where a pair fails if it is
  malformed, if its key fails to decode, or if its key decodes and its value fails.
  In particular, when the first segment or pair that fails returns an error, that
  error is what \<open>processField\<close> returns.
\<close>

theorem container_decode_atomic:
  "(snd (processField L raw t field) \<noteq> None \<longrightarrow> fst (processField L raw t field) = field)
   \<and> (Kind_of el \<noteq> KUint8 \<and> TrimSpace L raw \<noteq> []
        \<and> (\<exists>s\<in>set (Split raw CHR '',''). snd (processField L s el (Zero el)) \<noteq> None) \<longrightarrow>
        (\<exists>s\<in>set (Split raw CHR '',''). snd (processField L s el (Zero el)) \<noteq> None
           \<and> processField L raw (TSlice el) field = (field, snd (processField L s el (Zero el)))))
   \<and> (TrimSpace L raw \<noteq> []
        \<and> (\<exists>p\<in>set (Split raw CHR '',''). isl (decodePair L kt vt p)) \<longrightarrow>
        (\<exists>p\<in>set (Split raw CHR '',''). \<exists>e. decodePair L kt vt p = Inl e
           \<and> processField L raw (TMap kt vt) field = (field, Some e)))
   \<and> (Split p CHR '':'' = [a, b] \<and> snd (processField L a kt (Zero kt)) = Some e \<longrightarrow>
        decodePair L kt vt p = Inl e)
   \<and> (Split p CHR '':'' = [a, b] \<and> snd (processField L a kt (Zero kt)) = None
        \<and> snd (processField L b vt (Zero vt)) = Some e \<longrightarrow>
        decodePair L kt vt p = Inl e)
   \<and> (Kind_of el \<noteq> KUint8 \<and> TrimSpace L raw \<noteq> []
        \<and> find (\<lambda>s. snd (processField L s el (Zero el)) \<noteq> None) (Split raw CHR '','') = Some s1
        \<and> snd (processField L s1 el (Zero el)) = Some (Err er) \<longrightarrow>
        processField L raw (TSlice el) field = (field, Some (Err er)))
   \<and> (TrimSpace L raw \<noteq> []
        \<and> find (\<lambda>p. isl (decodePair L kt vt p)) (Split raw CHR '','') = Some p1
        \<and> decodePair L kt vt p1 = Inl (Err er) \<longrightarrow>
        processField L raw (TMap kt vt) field = (field, Some (Err er)))"
proof (intro conjI impI)
  assume "snd (processField L raw t field) \<noteq> None"
  then show "fst (processField L raw t field) = field"
    using processField_error_unchanged by fastforce
next
  assume h: "Kind_of el \<noteq> KUint8 \<and> TrimSpace L raw \<noteq> []
        \<and> (\<exists>s\<in>set (Split raw CHR '',''). snd (processField L s el (Zero el)) \<noteq> None)"
  then obtain s where s: "s \<in> set (Split raw CHR '','')" "snd (processField L s el (Zero el)) \<noteq> None"
    "find (\<lambda>s. snd (processField L s el (Zero el)) \<noteq> None) (Split raw CHR '','') = Some s"
    using find_first [of "Split raw CHR '',''" "\<lambda>s. snd (processField L s el (Zero el)) \<noteq> None"]
    by blast
  have "processField L raw (TSlice el) field = (field, snd (processField L s el (Zero el)))"
    by (subst processField_slice) (use h s(3) in simp)
  with s show "\<exists>s\<in>set (Split raw CHR '',''). snd (processField L s el (Zero el)) \<noteq> None
           \<and> processField L raw (TSlice el) field = (field, snd (processField L s el (Zero el)))"
    by blast
next
  assume h: "TrimSpace L raw \<noteq> [] \<and> (\<exists>p\<in>set (Split raw CHR '',''). isl (decodePair L kt vt p))"
  then obtain q where q: "q \<in> set (Split raw CHR '','')" "isl (decodePair L kt vt q)"
    "find (\<lambda>p. isl (decodePair L kt vt p)) (Split raw CHR '','') = Some q"
    using find_first [of "Split raw CHR '',''" "\<lambda>p. isl (decodePair L kt vt p)"]
    by blast
  from q(2) obtain e' where e': "decodePair L kt vt q = Inl e'"
    by (cases "decodePair L kt vt q") auto
  have "processField L raw (TMap kt vt) field = (field, Some e')"
    by (subst processField_map) (use h q(3) e' in simp)
  with q e' show "\<exists>p\<in>set (Split raw CHR '',''). \<exists>e. decodePair L kt vt p = Inl e
           \<and> processField L raw (TMap kt vt) field = (field, Some e)"
    by blast
next
  assume "Split p CHR '':'' = [a, b] \<and> snd (processField L a kt (Zero kt)) = Some e"
  then show "decodePair L kt vt p = Inl e"
    by (simp add: decodePair_key_fails)
next
  assume "Split p CHR '':'' = [a, b] \<and> snd (processField L a kt (Zero kt)) = None
        \<and> snd (processField L b vt (Zero vt)) = Some e"
  then show "decodePair L kt vt p = Inl e"
    by (simp add: decodePair_value_fails)
next
  assume "Kind_of el \<noteq> KUint8 \<and> TrimSpace L raw \<noteq> []
        \<and> find (\<lambda>s. snd (processField L s el (Zero el)) \<noteq> None) (Split raw CHR '','') = Some s1
        \<and> snd (processField L s1 el (Zero el)) = Some (Err er)"
  then show "processField L raw (TSlice el) field = (field, Some (Err er))"
    by (subst processField_slice) simp
next
  assume "TrimSpace L raw \<noteq> []
        \<and> find (\<lambda>p. isl (decodePair L kt vt p)) (Split raw CHR '','') = Some p1
        \<and> decodePair L kt vt p1 = Inl (Err er)"
  then show "processField L raw (TMap kt vt) field = (field, Some (Err er))"
    by (subst processField_map) simp
qed

theorem container_decode_atomic_witness:
  "snd (processField std ''1,x'' (TSlice (TInt WPlain [] ''int'')) (VSlice [VInt 9])) \<noteq> None
   \<and> fst (processField std ''1,x'' (TSlice (TInt WPlain [] ''int'')) (VSlice [VInt 9])) = VSlice [VInt 9]
   \<and> snd (processField std ''a:1,b:x'' (TMap TString (TInt WPlain [] ''int''))
             (VMap [(VString ''k'', VInt 0)])) \<noteq> None
   \<and> fst (processField std ''a:1,b:x'' (TMap TString (TInt WPlain [] ''int''))
             (VMap [(VString ''k'', VInt 0)])) = VMap [(VString ''k'', VInt 0)]"
proof -
  have s: "snd (processField std ''1,x'' (TSlice (TInt WPlain [] ''int'')) (VSlice [VInt 9])) \<noteq> None"
    by (simp add: std_eval)
  have m: "snd (processField std ''a:1,b:x'' (TMap TString (TInt WPlain [] ''int''))
             (VMap [(VString ''k'', VInt 0)])) \<noteq> None"
    by (simp add: std_eval)
  note atomic = container_decode_atomic [THEN conjunct1, rule_format]
  from s m atomic [OF s] atomic [OF m] show ?thesis
    by (intro conjI)
qed

subsection \<open>Qualified parameter names\<close>

text \<open>
  C1. Let \<open>infos\<close> be the name-to-field mapping that \<open>Process\<close> builds for a struct
  with the fields \<open>fs\<close> under the call prefix \<open>pre\<close>. For every bound leaf field, at
  whatever depth, its name is \<open>pre\<close> followed by the tag values of the fields on the
  path to it (the sub-structs that contain it, an untagged one adding nothing, and
  last the leaf itself), and that name is a key of \<open>infos\<close>. Conversely every entry of
  \<open>infos\<close> maps such a name to the field that carries it. For \<open>SmallConfig\<close>, a
  sub-struct tagged "/prefixnested" with a field tagged "/nested/key", and the prefix
  "/test", the mapping has the single key "/test/prefixnested/nested/key", which is
  the one name that \<open>Process\<close> requests.
\<close>

theorem qualified_names:
  "(\<forall>p k r. bound_leaf pre [] fs p = Some (k, r) \<longrightarrow>
       k = pre @ concat (tags_on_path fs p) \<and> k \<in> fst ` set (walk (enqueue [] fs pre) []))
   \<and> (\<forall>k r. (k, r) \<in> set (walk (enqueue [] fs pre) []) \<longrightarrow>
       bound_leaf pre [] fs (path r) = Some (k, r))
   \<and> walk (enqueue [] (Fields SmallConfig) ''/test'') [] =
        [(''/test/prefixnested/nested/key'', \<lparr>path = [0, 0], vtype = TString, flagRO = False\<rparr>)]
   \<and> requests (Process L ssmsvc ''/test'' (Iface (TPtr SmallConfig) (VPtr s))) =
        [\<lparr>Names = [''/test/prefixnested/nested/key''], WithDecryption = Some True\<rparr>]"
proof (intro conjI allI impI)
  fix p k r
  assume b: "bound_leaf pre [] fs p = Some (k, r)"
  then show "k = pre @ concat (tags_on_path fs p)"
    by (simp add: bound_leaf_name)
  from b have "p \<noteq> []"
    by (cases p) simp_all
  with b have "(k, r) \<in> queue_leaves (enqueue [] fs pre)"
    by (auto simp: queue_leaves_enqueue)
  then have "k \<in> fst ` queue_leaves (enqueue [] fs pre)"
    by force
  then show "k \<in> fst ` set (walk (enqueue [] fs pre) [])"
    by (simp add: walk_keys)
next
  fix k r
  assume "(k, r) \<in> set (walk (enqueue [] fs pre) [])"
  then have "(k, r) \<in> queue_leaves (enqueue [] fs pre)"
    using walk_entries [of "enqueue [] fs pre" "[]"] by auto
  then obtain p where p: "bound_leaf pre [] fs p = Some (k, r)"
    by (auto simp: queue_leaves_enqueue)
  then have "path r = p"
    using bound_leaf_name [of pre "[]" fs p k r] by simp
  with p show "bound_leaf pre [] fs (path r) = Some (k, r)"
    by simp
next
  show "walk (enqueue [] (Fields SmallConfig) ''/test'') [] =
        [(''/test/prefixnested/nested/key'', \<lparr>path = [0, 0], vtype = TString, flagRO = False\<rparr>)]"
    by (simp add: walk_eval)
next
  have "walk (enqueue [] (Fields SmallConfig) ''/test'') [] =
        [(''/test/prefixnested/nested/key'', \<lparr>path = [0, 0], vtype = TString, flagRO = False\<rparr>)]"
    by (simp add: walk_eval)
  moreover have "Kind_of SmallConfig = KStruct"
    by (simp add: SmallConfig_def)
  ultimately show "requests (Process L ssmsvc ''/test'' (Iface (TPtr SmallConfig) (VPtr s))) =
        [\<lparr>Names = [''/test/prefixnested/nested/key''], WithDecryption = Some True\<rparr>]"
    by (simp add: Process_def Let_def split: sum.splits prod.splits)
qed

theorem qualified_names_witness:
  "bound_leaf ''/test'' [] (Fields SmallConfig) [0, 0] =
     Some (''/test/prefixnested/nested/key'', \<lparr>path = [0, 0], vtype = TString, flagRO = False\<rparr>)
   \<and> ''/test/prefixnested/nested/key'' = ''/test'' @ concat (tags_on_path (Fields SmallConfig) [0, 0])
   \<and> ''/test/prefixnested/nested/key'' \<in> fst ` set (walk (enqueue [] (Fields SmallConfig) ''/test'') [])"
proof -
  have b: "bound_leaf ''/test'' [] (Fields SmallConfig) [0, 0] =
     Some (''/test/prefixnested/nested/key'', \<lparr>path = [0, 0], vtype = TString, flagRO = False\<rparr>)"
    by (simp add: walk_eval)
  have "''/test/prefixnested/nested/key'' = ''/test'' @ concat (tags_on_path (Fields SmallConfig) [0, 0])
   \<and> ''/test/prefixnested/nested/key'' \<in> fst ` set (walk (enqueue [] (Fields SmallConfig) ''/test'') [])"
    by (rule qualified_names [THEN conjunct1, rule_format, OF b])
  with b show ?thesis
    by (rule conjI)
qed


subsection \<open>A failing store\<close>

text \<open>
  C4. When the store answers the request of \<open>Process\<close> with an error, \<open>Process\<close>
  returns that same error value, the struct behind the pointer is as it was before
  the call, and that request is the only one sent.
\<close>

theorem store_failure_propagates:
  "ssmsvc \<lparr>Names = map fst (walk (enqueue [] fs pre) []), WithDecryption = Some True\<rparr> = Inl e \<longrightarrow>
     Process L ssmsvc pre (Iface (TPtr (TStruct fs)) (VPtr s)) =
       \<lparr>ended = Some (Err e),
        spec_after = Iface (TPtr (TStruct fs)) (VPtr s),
        requests = [\<lparr>Names = map fst (walk (enqueue [] fs pre) []), WithDecryption = Some True\<rparr>]\<rparr>"
  by (simp add: Process_def)

theorem store_failure_propagates_witness:
  "Process std (\<lambda>i. Inl (ErrorString ''test'')) [] (Iface (TPtr Config) (VPtr (Zero Config))) =
       \<lparr>ended = Some (Err (ErrorString ''test'')),
        spec_after = Iface (TPtr Config) (VPtr (Zero Config)),
        requests = [\<lparr>Names = [''/test/key'', ''/test/number'', ''/test/uint'', ''/test/bool'',
                              ''/test/float'', ''/test/floatslice'', ''/test/duration'', ''/test/map'',
                              ''/nested/key'', ''/inline/key''],
                     WithDecryption = Some True\<rparr>]\<rparr>"
proof -
  have c: "Config = TStruct (Fields Config)"
    by (simp add: Config_def)
  have "(\<lambda>i. Inl (ErrorString ''test'') :: error + Parameter list)
          \<lparr>Names = map fst (walk (enqueue [] (Fields Config) []) []), WithDecryption = Some True\<rparr>
        = Inl (ErrorString ''test'')"
    by simp
  from store_failure_propagates [where L = std and s = "Zero Config" and pre = "[]"
      and fs = "Fields Config" and ssmsvc = "\<lambda>i. Inl (ErrorString ''test'')"
      and e = "ErrorString ''test''", THEN mp, OF this]
  show ?thesis
    by (simp add: c [symmetric] Config_names)
qed

subsection \<open>A record without bound fields\<close>

text \<open>
  C8. When no field of the struct is bound to a parameter (no path leads through
  writable fields to a tagged field that is not a struct), \<open>Process\<close> sends exactly
  one request, with the empty list of names and with decryption requested, and the
  struct behind the pointer is unchanged when it returns, whatever the store answers;
  it returns the store's error if there is one and no error otherwise.
\<close>

theorem unbound_record_untouched:
  "(\<forall>p. bound_leaf pre [] fs p = None) \<longrightarrow>
     Process L ssmsvc pre (Iface (TPtr (TStruct fs)) (VPtr s)) =
       \<lparr>ended = (case ssmsvc \<lparr>Names = [], WithDecryption = Some True\<rparr> of
                     Inl e \<Rightarrow> Some (Err e)
                   | Inr params \<Rightarrow> None),
        spec_after = Iface (TPtr (TStruct fs)) (VPtr s),
        requests = [\<lparr>Names = [], WithDecryption = Some True\<rparr>]\<rparr>"
proof
  assume "\<forall>p. bound_leaf pre [] fs p = None"
  then have "walk (enqueue [] fs pre) [] = []"
    by (rule no_leaves_walk_empty)
  then show "Process L ssmsvc pre (Iface (TPtr (TStruct fs)) (VPtr s)) =
       \<lparr>ended = (case ssmsvc \<lparr>Names = [], WithDecryption = Some True\<rparr> of
                     Inl e \<Rightarrow> Some (Err e)
                   | Inr params \<Rightarrow> None),
        spec_after = Iface (TPtr (TStruct fs)) (VPtr s),
        requests = [\<lparr>Names = [], WithDecryption = Some True\<rparr>]\<rparr>"
    by (simp add: Process_def fill_no_infos split: sum.splits)
qed

theorem unbound_record_untouched_witness:
  "Process std (\<lambda>i. Inr [\<lparr>P_Name = Some ''/test/key'', P_Value = Some ''testkey''\<rparr>]) []
     (Iface (TPtr NoTagConfig) (VPtr (VStruct [VString ''nooverride'']))) =
       \<lparr>ended = None,
        spec_after = Iface (TPtr NoTagConfig) (VPtr (VStruct [VString ''nooverride''])),
        requests = [\<lparr>Names = [], WithDecryption = Some True\<rparr>]\<rparr>"
proof -
  have "\<forall>p. bound_leaf [] [] [StructField ''TestKey'' [] [] TString] p = None"
    using NoTagConfig_unbound [of "[]" "[]"] by (simp add: NoTagConfig_def)
  from unbound_record_untouched [where L = std and pre = "[]"
      and ssmsvc = "\<lambda>i. Inr [\<lparr>P_Name = Some ''/test/key'', P_Value = Some ''testkey''\<rparr>]"
      and s = "VStruct [VString ''nooverride'']", THEN mp, OF this]
  show ?thesis
    by (simp add: NoTagConfig_def)
qed

subsection \<open>Round trips of scalar values\<close>














end
